theory Spec2Isabelle
  imports Main
begin

section \<open>Transport Socket (player/audio-socket)\<close>

text \<open>
  The module keeps one state object; every handler runs to completion on the event loop.
  Sockets are identified by a number. The environment decides which event comes next, so
  each handler is a function from the state to the new state and the effects it caused,
  in order.
\<close>

type_synonym time = int

record socket_state =
  socket :: "nat option"
  writable :: bool
  reconnectDelay :: int
  reconnectTimer :: "int option"
  reconnectAttempts :: nat
  shuttingDown :: bool

text \<open>Effects visible outside the module: a timer armed with a delay, a dial, a connection
  established, the final give-up message, and the drain callback.\<close>

datatype sock_out = Scheduled int | Dial nat | Connected nat | GaveUp | OnDrain | SocketEnd nat

definition audio_socket_init :: socket_state where
  "audio_socket_init =
     \<lparr>socket = None, writable = True, reconnectDelay = 1000, reconnectTimer = None,
      reconnectAttempts = 0, shuttingDown = False\<rparr>"

definition clearReconnectTimer :: "socket_state \<Rightarrow> socket_state" where
  "clearReconnectTimer st = st\<lparr>reconnectTimer := None\<rparr>"

definition scheduleReconnect :: "nat \<Rightarrow> socket_state \<Rightarrow> socket_state \<times> sock_out list" where
  "scheduleReconnect maxReconnectAttempts st =
     (if shuttingDown st then (st, [])
      else if reconnectTimer st \<noteq> None then (st, [])
      else if reconnectAttempts st \<ge> maxReconnectAttempts then (st, [GaveUp])
      else
        let st1 = st\<lparr>reconnectAttempts := reconnectAttempts st + 1\<rparr>;
            delay = min (reconnectDelay st1) 30000
        in (st1\<lparr>reconnectTimer := Some delay, reconnectDelay := min (delay * 2) 30000\<rparr>,
            [Scheduled delay]))"

text \<open>\<open>connect\<close> dials a fresh socket \<open>sk\<close>; its handlers are the events below.\<close>

definition connect :: "nat \<Rightarrow> socket_state \<Rightarrow> socket_state \<times> sock_out list" where
  "connect sk st =
     (if shuttingDown st then (st, [])
      else (clearReconnectTimer st, [Dial sk]))"

definition disconnect :: "socket_state \<Rightarrow> socket_state \<times> sock_out list" where
  "disconnect st =
     (let st1 = clearReconnectTimer st
      in case socket st1 of
           Some sk \<Rightarrow> (st1\<lparr>socket := None\<rparr>, [SocketEnd sk])
         | None \<Rightarrow> (st1, []))"

definition setShuttingDown :: "bool \<Rightarrow> socket_state \<Rightarrow> socket_state" where
  "setShuttingDown v st =
     (let st1 = st\<lparr>shuttingDown := v\<rparr>
      in if v then clearReconnectTimer st1 else st1)"

datatype sock_event =
    ApiConnect nat
  | ApiDisconnect
  | ApiSetShuttingDown bool
  | ApiSetWritable bool
  | TimerFires nat
  | SockConnect nat
  | SockDrain
  | SockError
  | SockClose nat

fun sock_step :: "nat \<Rightarrow> sock_event \<Rightarrow> socket_state \<Rightarrow> socket_state \<times> sock_out list" where
  "sock_step m (ApiConnect sk) st = connect sk st"
| "sock_step m ApiDisconnect st = disconnect st"
| "sock_step m (ApiSetShuttingDown v) st = (setShuttingDown v st, [])"
| "sock_step m (ApiSetWritable v) st = (st\<lparr>writable := v\<rparr>, [])"
| "sock_step m (TimerFires sk) st =
     (if reconnectTimer st = None then (st, [])
      else connect sk (st\<lparr>reconnectTimer := None\<rparr>))"
| "sock_step m (SockConnect sk) st =
     (st\<lparr>socket := Some sk, writable := True, reconnectDelay := 1000, reconnectAttempts := 0\<rparr>,
      [Connected sk])"
| "sock_step m SockDrain st = (st\<lparr>writable := True\<rparr>, [OnDrain])"
| "sock_step m SockError st = (st, [])"
| "sock_step m (SockClose sk) st =
     (let st1 = st\<lparr>writable := False\<rparr>;
          st2 = (if socket st1 = Some sk then st1\<lparr>socket := None\<rparr> else st1)
      in scheduleReconnect m st2)"

fun sock_run :: "nat \<Rightarrow> sock_event list \<Rightarrow> socket_state \<Rightarrow> socket_state \<times> sock_out list" where
  "sock_run m [] st = (st, [])"
| "sock_run m (e # es) st =
     (let (st1, out1) = sock_step m e st;
          (st2, out2) = sock_run m es st1
      in (st2, out1 @ out2))"

text \<open>
  The delays of a run, read against the claim: \<open>prev\<close> is the delay scheduled last since the
  latest successful connection (none yet after a connection or at start). The first delay
  after a connection is the floor; each later one is the previous doubled and cut at the
  cap, hence not smaller; none is above the cap.
\<close>

fun backoff_ok :: "int option \<Rightarrow> sock_out list \<Rightarrow> bool" where
  "backoff_ok prev [] = True"
| "backoff_ok prev (Scheduled d # os) =
     ((case prev of None \<Rightarrow> d = 1000 | Some p \<Rightarrow> d = min (2 * p) 30000 \<and> p \<le> d)
      \<and> d \<le> 30000 \<and> backoff_ok (Some d) os)"
| "backoff_ok prev (Connected sk # os) = backoff_ok None os"
| "backoff_ok prev (x # os) = backoff_ok prev os"

text \<open>The relation between the state and the last delay that the proof carries along.\<close>

definition delay_inv :: "int option \<Rightarrow> socket_state \<Rightarrow> bool" where
  "delay_inv prev st =
     (case prev of
        None \<Rightarrow> reconnectDelay st = 1000
      | Some p \<Rightarrow> 1000 \<le> p \<and> p \<le> 30000 \<and> reconnectDelay st = min (2 * p) 30000)"

fun last_delay :: "int option \<Rightarrow> sock_out list \<Rightarrow> int option" where
  "last_delay prev [] = prev"
| "last_delay prev (Scheduled d # os) = last_delay (Some d) os"
| "last_delay prev (Connected sk # os) = last_delay None os"
| "last_delay prev (x # os) = last_delay prev os"

text \<open>The delays of the timers armed in a run, in order.\<close>

fun delays :: "sock_out list \<Rightarrow> int list" where
  "delays [] = []"
| "delays (Scheduled d # os) = d # delays os"
| "delays (x # os) = delays os"

text \<open>
  \<open>n\<close> consecutive connection failures: the socket \<open>sk\<close> closes, the reconnect timer fires
  and dials the next socket, which closes in turn.
\<close>

fun failures :: "nat \<Rightarrow> nat \<Rightarrow> sock_event list" where
  "failures sk 0 = []"
| "failures sk (Suc n) = SockClose sk # TimerFires (Suc sk) # failures (Suc sk) n"

text \<open>What a failure needs to be followed by a reconnect.\<close>

definition may_reconnect :: "nat \<Rightarrow> socket_state \<Rightarrow> bool" where
  "may_reconnect m st =
     (\<not> shuttingDown st \<and> reconnectTimer st = None \<and> reconnectAttempts st < m)"

definition connected_state :: socket_state where
  "connected_state = fst (sock_step 10 (SockConnect 1) audio_socket_init)"


section \<open>Encode Supervisor (server/ffmpeg-manager)\<close>

text \<open>
  The restart constants are read from the environment by \<open>optionalPositiveIntEnv\<close>
  (server/constants), so they are parameters here; \<open>default_config\<close> holds the fallbacks
  and \<open>config_ok\<close> is the positivity that \<open>optionalPositiveIntEnv\<close> enforces at start-up.
\<close>

record config =
  FFMPEG_RESTART_MAX_ATTEMPTS :: nat
  FFMPEG_RESTART_WINDOW_MS :: int
  FFMPEG_RESTART_BACKOFF_BASE_MS :: int
  FFMPEG_RESTART_BACKOFF_MAX_MS :: int
  FFMPEG_STABLE_RUN_MS :: int
  FFMPEG_AUTO_RESTART :: bool

definition default_config :: config where
  "default_config =
     \<lparr>FFMPEG_RESTART_MAX_ATTEMPTS = 5, FFMPEG_RESTART_WINDOW_MS = 60000,
      FFMPEG_RESTART_BACKOFF_BASE_MS = 500, FFMPEG_RESTART_BACKOFF_MAX_MS = 60000,
      FFMPEG_STABLE_RUN_MS = 120000, FFMPEG_AUTO_RESTART = True\<rparr>"


text \<open>
  A child process object as \<open>child_process.spawn\<close> returns it: \<open>pid\<close> is undefined when
  the operating system started nothing; \<open>killed\<close> is set once a signal was delivered;
  \<open>stdin\<close> is the piped stream, present or not, destroyed or not.
\<close>

record child =
  pid :: "nat option"
  killed :: bool
  hasStdin :: bool
  stdinDestroyed :: bool

datatype spawn_result = SpawnThrows | SpawnReturns child

text \<open>\<open>kill\<close> either throws or returns whether the signal was delivered.\<close>

datatype kill_result = KillThrows | KillReturns bool

text \<open>The four \<open>setTimeout\<close> callbacks of the module, pending with their due time.\<close>

datatype timer = RestartTimer | BlockTimer | StabilityTimer | RespawnTimer

text \<open>
  The closure variables of \<open>createFfmpegManager\<close>. \<open>timers\<close> is the event loop's list of
  pending timeouts of this module; \<open>ffmpegBlockTimeout\<close> holds the handle of the block
  timer armed last (its due time identifies it). \<open>attached\<close> counts the children that got
  their handlers attached and whose \<open>close\<close> event has not been delivered yet, and
  \<open>spawnLog\<close> records each entry into \<open>spawn_\<close>: both only observe, no handler reads them.
  Progress parsing, stall warnings and the command line of the encoder touch none of the
  variables below and are left out.
\<close>

record mgr =
  ffmpegProcess :: "child option"
  ffmpegWritable :: bool
  restartingFfmpeg :: bool
  ffmpegRestartAttempts :: "time list"
  ffmpegStartedAt :: "time option"
  ffmpegBlocked :: bool
  ffmpegBlockTimeout :: "time option"
  manualRestartReason :: "string option"
  pendingOverlayStyleRestart :: bool
  plannedPauseReason :: "string option"
  heartbeatTimer :: bool
  rtmpConnected :: bool
  ffmpegRestarts :: nat
  timers :: "(timer \<times> time) list"
  attached :: nat
  spawnLog :: "time list"

definition mgr_init :: mgr where
  "mgr_init =
     \<lparr>ffmpegProcess = None, ffmpegWritable = True, restartingFfmpeg = False,
      ffmpegRestartAttempts = [], ffmpegStartedAt = None, ffmpegBlocked = False,
      ffmpegBlockTimeout = None, manualRestartReason = None,
      pendingOverlayStyleRestart = False, plannedPauseReason = None,
      heartbeatTimer = False, rtmpConnected = False, ffmpegRestarts = 0,
      timers = [], attached = 0, spawnLog = []\<rparr>"

text \<open>JavaScript truthiness of a string or null, of a pid, and of a timestamp.\<close>

definition truthy :: "string option \<Rightarrow> bool" where
  "truthy r = (case r of None \<Rightarrow> False | Some x \<Rightarrow> x \<noteq> [])"

definition has_pid :: "child \<Rightarrow> bool" where
  "has_pid ch = (case pid ch of None \<Rightarrow> False | Some p \<Rightarrow> p \<noteq> 0)"

definition stopHeartbeat :: "mgr \<Rightarrow> mgr" where
  "stopHeartbeat s = s\<lparr>heartbeatTimer := False\<rparr>"

definition clearTimeout_block :: "mgr \<Rightarrow> (timer \<times> time) list" where
  "clearTimeout_block s =
     (case ffmpegBlockTimeout s of
        None \<Rightarrow> timers s
      | Some h \<Rightarrow> removeAll (BlockTimer, h) (timers s))"

text \<open>
  \<open>scheduleRestart\<close>. \<open>now\<close> is \<open>Date.now()\<close>; \<open>rnd\<close> stands for the draw of
  \<open>Math.random\<close>: the jitter \<open>floor(random * min(1000, baseDelay))\<close> is some integer below
  \<open>min(1000, baseDelay)\<close>.
\<close>

definition backoff_delay :: "config \<Rightarrow> nat \<Rightarrow> nat \<Rightarrow> int" where
  "backoff_delay c attemptNo rnd =
     (let baseDelay = min (FFMPEG_RESTART_BACKOFF_BASE_MS c * 2 ^ attemptNo)
                          (FFMPEG_RESTART_BACKOFF_MAX_MS c);
          bound = min 1000 baseDelay;
          jitter = (if bound \<le> 0 then 0 else int rnd mod bound)
      in baseDelay + jitter)"

definition scheduleRestart :: "config \<Rightarrow> time \<Rightarrow> nat \<Rightarrow> mgr \<Rightarrow> mgr" where
  "scheduleRestart c now rnd s =
     (if \<not> FFMPEG_AUTO_RESTART c then s
      else if restartingFfmpeg s then s
      else
        let recent = filter (\<lambda>ts. now - ts \<le> FFMPEG_RESTART_WINDOW_MS c)
                            (ffmpegRestartAttempts s);
            s1 = s\<lparr>ffmpegRestartAttempts := recent\<rparr>
        in if length recent \<ge> FFMPEG_RESTART_MAX_ATTEMPTS c then
             s1\<lparr>ffmpegBlocked := True, rtmpConnected := False,
                timers := clearTimeout_block s1 @ [(BlockTimer, now + 300000)],
                ffmpegBlockTimeout := Some (now + 300000)\<rparr>
           else
             let attemptNo = length recent;
                 delay = backoff_delay c attemptNo rnd
             in s1\<lparr>ffmpegRestartAttempts := recent @ [now],
                   ffmpegRestarts := ffmpegRestarts s1 + 1,
                   restartingFfmpeg := True,
                   timers := timers s1 @ [(RestartTimer, now + delay)]\<rparr>)"

text \<open>
  \<open>spawn_\<close> of the source, under the name it is exported with. \<open>res\<close> is what
  \<open>child_process.spawn\<close> does this time.
\<close>

definition spawn :: "config \<Rightarrow> spawn_result \<Rightarrow> time \<Rightarrow> mgr \<Rightarrow> mgr" where
  "spawn c res now s0 =
     (let s = s0\<lparr>spawnLog := spawnLog s0 @ [now]\<rparr>
      in case res of
           SpawnThrows \<Rightarrow> s\<lparr>rtmpConnected := False, ffmpegBlocked := True\<rparr>
         | SpawnReturns ch \<Rightarrow>
             let s1 = s\<lparr>ffmpegProcess := Some ch\<rparr>
             in if \<not> has_pid ch then s1\<lparr>rtmpConnected := False, ffmpegBlocked := True\<rparr>
                else s1\<lparr>ffmpegWritable := True, rtmpConnected := True,
                        ffmpegStartedAt := Some now,
                        timers := timers s1 @ [(StabilityTimer, now + FFMPEG_STABLE_RUN_MS c)],
                        heartbeatTimer := True,
                        attached := attached s1 + 1\<rparr>)"

text \<open>The callbacks of the four timers.\<close>

definition restart_timer_cb :: "config \<Rightarrow> spawn_result \<Rightarrow> time \<Rightarrow> mgr \<Rightarrow> mgr" where
  "restart_timer_cb c res now s = spawn c res now (s\<lparr>restartingFfmpeg := False\<rparr>)"

definition block_timer_cb :: "mgr \<Rightarrow> mgr" where
  "block_timer_cb s = s\<lparr>ffmpegBlocked := False, ffmpegRestartAttempts := []\<rparr>"

definition stability_timer_cb :: "config \<Rightarrow> time \<Rightarrow> mgr \<Rightarrow> mgr" where
  "stability_timer_cb c now s =
     (if ffmpegProcess s \<noteq> None
         \<and> (case ffmpegStartedAt s of
               None \<Rightarrow> False
             | Some t0 \<Rightarrow> t0 \<noteq> 0 \<and> now - t0 \<ge> FFMPEG_STABLE_RUN_MS c)
      then
        let s1 = s\<lparr>ffmpegRestartAttempts := []\<rparr>
        in if ffmpegBlocked s1 then s1\<lparr>ffmpegBlocked := False\<rparr> else s1
      else s)"

definition respawn_timer_cb :: "config \<Rightarrow> spawn_result \<Rightarrow> time \<Rightarrow> mgr \<Rightarrow> mgr" where
  "respawn_timer_cb c res now s = spawn c res now s"

text \<open>The heartbeat interval: only the part that changes the variables above.\<close>

definition heartbeat_cb :: "config \<Rightarrow> time \<Rightarrow> nat \<Rightarrow> mgr \<Rightarrow> mgr" where
  "heartbeat_cb c now rnd s =
     (case ffmpegProcess s of
        None \<Rightarrow> s
      | Some ch \<Rightarrow>
          if killed ch then
            scheduleRestart c now rnd
              (stopHeartbeat (s\<lparr>rtmpConnected := False, ffmpegProcess := None\<rparr>))
          else s)"

text \<open>The \<open>close\<close> and \<open>error\<close> handlers of a child, and \<open>drain\<close> of its stdin.\<close>

definition close_handler :: "config \<Rightarrow> time \<Rightarrow> nat \<Rightarrow> mgr \<Rightarrow> mgr" where
  "close_handler c now rnd s =
     (let reason = manualRestartReason s;
          s1 = (stopHeartbeat (s\<lparr>rtmpConnected := False, ffmpegProcess := None\<rparr>))
                 \<lparr>pendingOverlayStyleRestart := False\<rparr>
      in if truthy reason then
           s1\<lparr>manualRestartReason := None,
              timers := timers s1 @ [(RespawnTimer, now + 250)]\<rparr>
         else scheduleRestart c now rnd (s1\<lparr>manualRestartReason := None\<rparr>))"

definition error_handler :: "config \<Rightarrow> time \<Rightarrow> nat \<Rightarrow> mgr \<Rightarrow> mgr" where
  "error_handler c now rnd s =
     scheduleRestart c now rnd
       ((stopHeartbeat (s\<lparr>rtmpConnected := False\<rparr>))
          \<lparr>pendingOverlayStyleRestart := False, manualRestartReason := None\<rparr>)"

definition drain_handler :: "mgr \<Rightarrow> mgr" where
  "drain_handler s = s\<lparr>ffmpegWritable := True\<rparr>"

text \<open>The operations of the returned object.\<close>

definition requestRestart :: "string \<Rightarrow> kill_result \<Rightarrow> mgr \<Rightarrow> mgr \<times> bool" where
  "requestRestart reason k s =
     (case ffmpegProcess s of
        None \<Rightarrow> (s, False)
      | Some ch \<Rightarrow>
          if pendingOverlayStyleRestart s then (s, False)
          else
            let s1 = s\<lparr>pendingOverlayStyleRestart := True, manualRestartReason := Some reason\<rparr>
            in case k of
                 KillReturns sent \<Rightarrow>
                   (s1\<lparr>ffmpegProcess := Some (ch\<lparr>killed := killed ch \<or> sent\<rparr>)\<rparr>, True)
               | KillThrows \<Rightarrow>
                   (s1\<lparr>pendingOverlayStyleRestart := False, manualRestartReason := None\<rparr>,
                    False))"

definition getStdin :: "mgr \<Rightarrow> child option" where
  "getStdin s =
     (case ffmpegProcess s of
        None \<Rightarrow> None
      | Some ch \<Rightarrow> if hasStdin ch \<and> \<not> stdinDestroyed ch then Some ch else None)"

definition isWritable :: "mgr \<Rightarrow> bool" where
  "isWritable s = ffmpegWritable s"

definition setWritable :: "bool \<Rightarrow> mgr \<Rightarrow> mgr" where
  "setWritable v s = s\<lparr>ffmpegWritable := v\<rparr>"

definition isRunning :: "mgr \<Rightarrow> bool" where
  "isRunning s = (ffmpegProcess s \<noteq> None)"

definition isBlocked :: "mgr \<Rightarrow> bool" where
  "isBlocked s = ffmpegBlocked s"

definition shutdown :: "kill_result \<Rightarrow> mgr \<Rightarrow> mgr" where
  "shutdown k s =
     (case ffmpegProcess s of
        None \<Rightarrow> stopHeartbeat s
      | Some ch \<Rightarrow>
          (case k of
             KillReturns sent \<Rightarrow>
               stopHeartbeat (s\<lparr>ffmpegProcess := Some (ch\<lparr>killed := killed ch \<or> sent\<rparr>)\<rparr>)
           | KillThrows \<Rightarrow> s))"

definition setPlannedPause :: "string \<Rightarrow> mgr \<Rightarrow> mgr" where
  "setPlannedPause reason s = s\<lparr>plannedPauseReason := Some reason, ffmpegWritable := False\<rparr>"

definition clearPlannedPause :: "mgr \<Rightarrow> mgr" where
  "clearPlannedPause s = s\<lparr>plannedPauseReason := None, ffmpegWritable := True\<rparr>"

text \<open>
  The names of the operations on the object that \<open>createFfmpegManager\<close> returns, in the
  order of the object literal. Looking up any other name on it gives \<open>undefined\<close>.
\<close>

definition manager_api :: "string list" where
  "manager_api =
     [''spawn'', ''shutdown'', ''requestRestart'',
      ''getStdin'', ''isWritable'', ''setWritable'',
      ''isRunning'', ''isBlocked'', ''getStatus'',
      ''setPlannedPause'', ''clearPlannedPause'', ''getPlannedPause'']"

text \<open>
  The events of the supervisor. A timer fires only when pending and due; \<open>close\<close>,
  \<open>error\<close>, \<open>spawn\<close> and stdin events come only from a child with handlers attached;
  the heartbeat ticks only while its interval is set. An event that cannot occur leaves
  the state as it is.
\<close>

datatype mgr_event =
    ApiSpawn spawn_result time
  | ApiRequestRestart string kill_result
  | ApiSetWritable bool
  | ApiSetPlannedPause string
  | ApiClearPlannedPause
  | ApiShutdown kill_result
  | Fire timer time spawn_result
  | HeartbeatTick time nat
  | ChildClose time nat
  | ChildError time nat
  | ChildSpawned
  | StdinDrain
  | StdinDestroyed

fun take_due :: "timer \<Rightarrow> time \<Rightarrow> (timer \<times> time) list \<Rightarrow> (timer \<times> time) list option" where
  "take_due k now [] = None"
| "take_due k now ((k', due) # ts) =
     (if k' = k \<and> due \<le> now then Some ts
      else map_option (\<lambda>r. (k', due) # r) (take_due k now ts))"

fun timer_cb :: "config \<Rightarrow> timer \<Rightarrow> spawn_result \<Rightarrow> time \<Rightarrow> mgr \<Rightarrow> mgr" where
  "timer_cb c RestartTimer res now s = restart_timer_cb c res now s"
| "timer_cb c BlockTimer res now s = block_timer_cb s"
| "timer_cb c StabilityTimer res now s = stability_timer_cb c now s"
| "timer_cb c RespawnTimer res now s = respawn_timer_cb c res now s"

fun mgr_step :: "config \<Rightarrow> mgr_event \<Rightarrow> mgr \<Rightarrow> mgr" where
  "mgr_step c (ApiSpawn res now) s = spawn c res now s"
| "mgr_step c (ApiRequestRestart reason k) s = fst (requestRestart reason k s)"
| "mgr_step c (ApiSetWritable v) s = setWritable v s"
| "mgr_step c (ApiSetPlannedPause reason) s = setPlannedPause reason s"
| "mgr_step c ApiClearPlannedPause s = clearPlannedPause s"
| "mgr_step c (ApiShutdown k) s = shutdown k s"
| "mgr_step c (Fire k now res) s =
     (case take_due k now (timers s) of
        None \<Rightarrow> s
      | Some ts \<Rightarrow> timer_cb c k res now (s\<lparr>timers := ts\<rparr>))"
| "mgr_step c (HeartbeatTick now rnd) s =
     (if heartbeatTimer s then heartbeat_cb c now rnd s else s)"
| "mgr_step c (ChildClose now rnd) s =
     (if attached s = 0 then s
      else close_handler c now rnd (s\<lparr>attached := attached s - 1\<rparr>))"
| "mgr_step c (ChildError now rnd) s =
     (if attached s = 0 then s else error_handler c now rnd s)"
| "mgr_step c ChildSpawned s = s"
| "mgr_step c StdinDrain s = (if attached s = 0 then s else drain_handler s)"
| "mgr_step c StdinDestroyed s =
     (case ffmpegProcess s of
        None \<Rightarrow> s
      | Some ch \<Rightarrow> s\<lparr>ffmpegProcess := Some (ch\<lparr>stdinDestroyed := True\<rparr>)\<rparr>)"

fun mgr_run :: "config \<Rightarrow> mgr_event list \<Rightarrow> mgr \<Rightarrow> mgr" where
  "mgr_run c [] s = s"
| "mgr_run c (e # es) s = mgr_run c es (mgr_step c e s)"

section \<open>Silence Filler, Ingest Listener and their wiring (server/silence-generator,
  server/tcp-server, server.js)\<close>

text \<open>Audio constants of server/constants; the silent chunk is 20 ms of zero bytes.\<close>

definition SAMPLE_RATE :: nat where "SAMPLE_RATE = 44100"
definition CHANNELS :: nat where "CHANNELS = 2"
definition BYTES_PER_SAMPLE :: nat where "BYTES_PER_SAMPLE = 2"
definition BYTES_PER_SECOND :: nat where
  "BYTES_PER_SECOND = SAMPLE_RATE * CHANNELS * BYTES_PER_SAMPLE"
definition SILENCE_CHUNK_DURATION_MS :: nat where "SILENCE_CHUNK_DURATION_MS = 20"
definition SILENCE_CHUNK_SIZE :: nat where
  "SILENCE_CHUNK_SIZE = (BYTES_PER_SECOND * SILENCE_CHUNK_DURATION_MS) div 1000"

type_synonym buffer = "nat list"

definition SILENCE_CHUNK :: buffer where
  "SILENCE_CHUNK = replicate SILENCE_CHUNK_SIZE 0"

text \<open>
  What \<open>stdin.write\<close> does, chosen by the environment: it returns true, returns false
  (the stream asks the writer to wait for \<open>drain\<close>), throws \<open>EPIPE\<close>, or throws
  something else.
\<close>

datatype write_result = WriteOk | WriteFull | WriteEPIPE | WriteThrows

datatype writer = Filler | Listener

text \<open>The effects on the world outside the three modules, logged in the order they happen.\<close>

datatype effect =
    StdinWrite writer buffer write_result
  | SockPause nat
  | SockResume nat
  | SockDestroy nat
  | ProducerConnected nat

text \<open>
  The closure variables of \<open>createSilenceGenerator\<close>. The two timer variables are modelled
  by whether the interval is set and whether a resume timeout is armed and has not fired.
\<close>

record silence =
  silenceInterval :: bool
  silencePaused :: bool
  silenceBackpressure :: bool
  idleSilenceTimer :: bool

definition silence_init :: silence where
  "silence_init =
     \<lparr>silenceInterval = False, silencePaused = False, silenceBackpressure = False,
      idleSilenceTimer = False\<rparr>"

definition ensureSilenceWriter :: "silence \<Rightarrow> silence" where
  "ensureSilenceWriter g =
     (if silenceInterval g then g
      else g\<lparr>silencePaused := False, silenceBackpressure := False, silenceInterval := True\<rparr>)"

definition start :: "silence \<Rightarrow> silence" where
  "start g = ensureSilenceWriter g"

definition stop :: "silence \<Rightarrow> silence" where
  "stop g =
     g\<lparr>silenceInterval := False, idleSilenceTimer := False,
       silencePaused := False, silenceBackpressure := False\<rparr>"

definition suspendTemporarily :: "silence \<Rightarrow> silence" where
  "suspendTemporarily g = (if silenceInterval g then g\<lparr>silencePaused := True\<rparr> else g)"

definition resumeAfterDelay :: "silence \<Rightarrow> silence" where
  "resumeAfterDelay g = g\<lparr>idleSilenceTimer := True\<rparr>"

definition idle_silence_cb :: "silence \<Rightarrow> silence" where
  "idle_silence_cb g =
     (if silenceInterval g then g\<lparr>silencePaused := False, silenceBackpressure := False\<rparr>
      else g)"

definition setBackpressure :: "bool \<Rightarrow> silence \<Rightarrow> silence" where
  "setBackpressure v g = g\<lparr>silenceBackpressure := v\<rparr>"

definition resetBackpressure :: "silence \<Rightarrow> silence" where
  "resetBackpressure g = g\<lparr>silenceBackpressure := False\<rparr>"

definition isActive :: "silence \<Rightarrow> bool" where
  "isActive g = silenceInterval g"

text \<open>
  The closure variables of \<open>createTcpServer\<close>. Sockets are numbers; their \<open>destroyed\<close> and
  paused flags live in the server record below.
\<close>

record tcp =
  currentProducer :: "nat option"
  pendingSocketResume :: "nat option"
  ingestIdleTimer :: bool
  bytesTotal :: nat
  bytesSinceLog :: nat
  chunksTotal :: nat
  lastLog :: time
  ingestStart :: time

definition tcp_init :: "time \<Rightarrow> tcp" where
  "tcp_init now =
     \<lparr>currentProducer = None, pendingSocketResume = None, ingestIdleTimer = False,
      bytesTotal = 0, bytesSinceLog = 0, chunksTotal = 0, lastLog = now, ingestStart = now\<rparr>"

definition flushIngestLog :: "time \<Rightarrow> tcp \<Rightarrow> tcp" where
  "flushIngestLog now t = t\<lparr>bytesSinceLog := 0, lastLog := now\<rparr>"

definition scheduleIngestIdleWarning :: "tcp \<Rightarrow> tcp" where
  "scheduleIngestIdleWarning t = t\<lparr>ingestIdleTimer := True\<rparr>"

definition stopIngestIdleWarning :: "tcp \<Rightarrow> tcp" where
  "stopIngestIdleWarning t = t\<lparr>ingestIdleTimer := False\<rparr>"

definition noteIngestChunk :: "int \<Rightarrow> nat \<Rightarrow> time \<Rightarrow> tcp \<Rightarrow> tcp" where
  "noteIngestChunk INGEST_LOG_INTERVAL_MS sz now t =
     (let t1 = t\<lparr>bytesTotal := bytesTotal t + sz, bytesSinceLog := bytesSinceLog t + sz,
                 chunksTotal := chunksTotal t + 1\<rparr>;
          t2 = (if now - lastLog t1 \<ge> INGEST_LOG_INTERVAL_MS then flushIngestLog now t1 else t1)
      in scheduleIngestIdleWarning t2)"

definition resetIngestCounters :: "time \<Rightarrow> tcp \<Rightarrow> tcp" where
  "resetIngestCounters now t =
     t\<lparr>bytesTotal := 0, bytesSinceLog := 0, chunksTotal := 0, lastLog := now,
       ingestStart := now\<rparr>"

text \<open>
  The server process: the three modules as server.js creates them, the flags of the
  producer sockets, and the log of effects. \<open>handlers\<close> holds the sockets that went through
  \<open>attachProducer\<close> and whose \<open>close\<close> event has not been delivered.
\<close>

record server =
  ffmpegManager :: mgr
  silenceGenerator :: silence
  tcpServer :: tcp
  handlers :: "nat set"
  destroyed :: "nat set"
  paused :: "nat set"
  effects :: "effect list"

definition server_init :: "time \<Rightarrow> server" where
  "server_init now =
     \<lparr>ffmpegManager = mgr_init, silenceGenerator = silence_init, tcpServer = tcp_init now,
      handlers = {}, destroyed = {}, paused = {}, effects = []\<rparr>"

definition emit :: "effect \<Rightarrow> server \<Rightarrow> server" where
  "emit x s = s\<lparr>effects := effects s @ [x]\<rparr>"

definition socket_pause :: "nat \<Rightarrow> server \<Rightarrow> server" where
  "socket_pause sk s = emit (SockPause sk) (s\<lparr>paused := insert sk (paused s)\<rparr>)"

definition socket_resume :: "nat \<Rightarrow> server \<Rightarrow> server" where
  "socket_resume sk s = emit (SockResume sk) (s\<lparr>paused := paused s - {sk}\<rparr>)"

definition socket_destroy :: "nat \<Rightarrow> server \<Rightarrow> server" where
  "socket_destroy sk s = emit (SockDestroy sk) (s\<lparr>destroyed := insert sk (destroyed s)\<rparr>)"

text \<open>\<open>writeSilenceChunk\<close>, the callback of the filler's interval.\<close>

definition writeSilenceChunk :: "write_result \<Rightarrow> server \<Rightarrow> server" where
  "writeSilenceChunk w s =
     (let g = silenceGenerator s
      in if silencePaused g \<or> silenceBackpressure g then s
         else
           case getStdin (ffmpegManager s) of
             None \<Rightarrow> s\<lparr>silenceGenerator := g\<lparr>silenceBackpressure := True\<rparr>\<rparr>
           | Some stdin \<Rightarrow>
               if \<not> isWritable (ffmpegManager s) then
                 s\<lparr>silenceGenerator := g\<lparr>silenceBackpressure := True\<rparr>\<rparr>
               else
                 let s1 = emit (StdinWrite Filler SILENCE_CHUNK w) s
                 in case w of
                      WriteOk \<Rightarrow> s1
                    | WriteFull \<Rightarrow>
                        s1\<lparr>ffmpegManager := setWritable False (ffmpegManager s1),
                           silenceGenerator := g\<lparr>silenceBackpressure := True\<rparr>\<rparr>
                    | WriteEPIPE \<Rightarrow> s1\<lparr>silenceGenerator := g\<lparr>silenceBackpressure := True\<rparr>\<rparr>
                    | WriteThrows \<Rightarrow> s1)"

text \<open>
  \<open>onData\<close> of server.js, with the \<open>socketControl.pause\<close> that \<open>handleProducerData\<close> hands
  it: the socket is paused and remembered as the pending resume. The result says whether
  the handler reports \<open>paused\<close>.
\<close>

definition socketControl_pause :: "nat \<Rightarrow> server \<Rightarrow> server" where
  "socketControl_pause sk s =
     (let s1 = socket_pause sk s
      in s1\<lparr>tcpServer := (tcpServer s1)\<lparr>pendingSocketResume := Some sk\<rparr>\<rparr>)"

definition onData :: "buffer \<Rightarrow> nat \<Rightarrow> write_result \<Rightarrow> server \<Rightarrow> server \<times> bool" where
  "onData chunk sk w s =
     (let s1 = (if isActive (silenceGenerator s)
                then s\<lparr>silenceGenerator :=
                         resumeAfterDelay (suspendTemporarily (silenceGenerator s))\<rparr>
                else s)
      in case getStdin (ffmpegManager s1) of
           None \<Rightarrow> (s1, False)
         | Some stdin \<Rightarrow>
             if \<not> isWritable (ffmpegManager s1) then (socketControl_pause sk s1, True)
             else
               let s2 = emit (StdinWrite Listener chunk w) s1
               in case w of
                    WriteOk \<Rightarrow> (s2, False)
                  | WriteFull \<Rightarrow>
                      (socketControl_pause sk
                         (s2\<lparr>ffmpegManager := setWritable False (ffmpegManager s2)\<rparr>), True)
                  | WriteEPIPE \<Rightarrow> (socketControl_pause sk s2, True)
                  | WriteThrows \<Rightarrow> (s2, False))"

definition handleProducerData ::
  "int \<Rightarrow> nat \<Rightarrow> buffer \<Rightarrow> time \<Rightarrow> write_result \<Rightarrow> server \<Rightarrow> server" where
  "handleProducerData logInterval sk chunk now w s =
     (let s1 = s\<lparr>tcpServer := noteIngestChunk logInterval (length chunk) now (tcpServer s)\<rparr>;
          (s2, result_paused) = onData chunk sk w s1
      in if result_paused
         then s2\<lparr>tcpServer := (tcpServer s2)\<lparr>pendingSocketResume := Some sk\<rparr>\<rparr>
         else s2)"

definition pauseProducer :: "server \<Rightarrow> server" where
  "pauseProducer s =
     (case currentProducer (tcpServer s) of
        None \<Rightarrow> s\<lparr>tcpServer := (tcpServer s)\<lparr>pendingSocketResume := None\<rparr>\<rparr>
      | Some sk \<Rightarrow>
          if sk \<notin> destroyed s then
            (let s1 = socket_pause sk s
             in s1\<lparr>tcpServer := (tcpServer s1)\<lparr>pendingSocketResume := Some sk\<rparr>\<rparr>)
          else s\<lparr>tcpServer := (tcpServer s)\<lparr>pendingSocketResume := None\<rparr>\<rparr>)"

definition resumeProducer :: "server \<Rightarrow> server" where
  "resumeProducer s =
     (let s1 = (case pendingSocketResume (tcpServer s) of
                  None \<Rightarrow> s
                | Some sk \<Rightarrow> if sk \<notin> destroyed s then socket_resume sk s else s)
      in s1\<lparr>tcpServer := (tcpServer s1)\<lparr>pendingSocketResume := None\<rparr>\<rparr>)"

text \<open>The callbacks that server.js passes to the modules.\<close>

definition onProducerDisconnect :: "server \<Rightarrow> server" where
  "onProducerDisconnect s = s\<lparr>silenceGenerator := resumeAfterDelay (silenceGenerator s)\<rparr>"

definition onSpawn :: "server \<Rightarrow> server" where
  "onSpawn s =
     (let m = ffmpegManager s;
          reason = (if truthy (manualRestartReason m) then manualRestartReason m
                    else plannedPauseReason m)
      in if truthy reason then resumeProducer s else s)"

definition onDrain :: "server \<Rightarrow> server" where
  "onDrain s =
     resumeProducer (s\<lparr>silenceGenerator := resetBackpressure (silenceGenerator s)\<rparr>)"

definition planned_restart :: "string \<Rightarrow> kill_result \<Rightarrow> server \<Rightarrow> server" where
  "planned_restart reason k s =
     (if isRunning (ffmpegManager s) then
        let s1 = pauseProducer s;
            s2 = s1\<lparr>ffmpegManager := setPlannedPause reason (ffmpegManager s1)\<rparr>;
            s3 = s2\<lparr>silenceGenerator := setBackpressure True (silenceGenerator s2)\<rparr>
        in s3\<lparr>ffmpegManager := fst (requestRestart reason k (ffmpegManager s3))\<rparr>
      else s)"

definition onBackgroundChange :: "string option \<Rightarrow> kill_result \<Rightarrow> server \<Rightarrow> server" where
  "onBackgroundChange newBackground k s =
     planned_restart
       (if truthy newBackground then ''background change''
        else ''background change (reset to solid color)'') k s"

definition onOverlayStyleChange :: "kill_result \<Rightarrow> server \<Rightarrow> server" where
  "onOverlayStyleChange k s = planned_restart ''overlay style change'' k s"

text \<open>\<open>attachProducer\<close> and the \<open>close\<close> handler it installs on the socket.\<close>

definition attachProducer :: "nat \<Rightarrow> time \<Rightarrow> server \<Rightarrow> server" where
  "attachProducer sk now s =
     (let s1 = (case currentProducer (tcpServer s) of
                  None \<Rightarrow> s
                | Some old \<Rightarrow> socket_destroy old s);
          s2 = s1\<lparr>tcpServer := (tcpServer s1)\<lparr>currentProducer := Some sk\<rparr>,
                  handlers := insert sk (handlers s1)\<rparr>;
          s3 = s2\<lparr>tcpServer := scheduleIngestIdleWarning (resetIngestCounters now (tcpServer s2))\<rparr>
      in emit (ProducerConnected sk) s3)"

definition producer_close :: "nat \<Rightarrow> time \<Rightarrow> server \<Rightarrow> server" where
  "producer_close sk now s =
     (let t = tcpServer s;
          t1 = (if pendingSocketResume t = Some sk then t\<lparr>pendingSocketResume := None\<rparr> else t);
          t2 = (if currentProducer t1 = Some sk then t1\<lparr>currentProducer := None\<rparr> else t1);
          t3 = stopIngestIdleWarning (resetIngestCounters now t2)
      in onProducerDisconnect (s\<lparr>tcpServer := t3\<rparr>))"

definition tcp_stop :: "server \<Rightarrow> server" where
  "tcp_stop s =
     (let s1 = s\<lparr>tcpServer := stopIngestIdleWarning (tcpServer s)\<rparr>
      in case currentProducer (tcpServer s1) of
           None \<Rightarrow> s1
         | Some sk \<Rightarrow>
             (let s2 = socket_destroy sk s1
              in s2\<lparr>tcpServer := (tcpServer s2)\<lparr>currentProducer := None\<rparr>\<rparr>))"

text \<open>
  The events of the server process. Encoder events are those of the supervisor, followed by
  the callback server.js registered for them. A producer socket delivers data only while
  it has handlers, is not destroyed and is flowing; its \<open>close\<close> marks it destroyed.
\<close>

datatype srv_event =
    Encoder mgr_event
  | SilenceTick write_result
  | IdleSilenceTimer
  | SilenceStart
  | ServerShutdown kill_result
  | Incoming nat time
  | ProducerData nat buffer time write_result
  | ProducerClose nat time
  | ProducerError nat
  | IngestIdleTimer
  | BackgroundChange "string option" kill_result
  | OverlayStyleChange kill_result

definition encoder_step :: "config \<Rightarrow> mgr_event \<Rightarrow> server \<Rightarrow> server" where
  "encoder_step c e s =
     (let m = ffmpegManager s;
          s1 = s\<lparr>ffmpegManager := mgr_step c e m\<rparr>
      in case e of
           ChildSpawned \<Rightarrow> (if attached m = 0 then s1 else onSpawn s1)
         | StdinDrain \<Rightarrow> (if attached m = 0 then s1 else onDrain s1)
         | _ \<Rightarrow> s1)"

fun srv_step :: "config \<Rightarrow> int \<Rightarrow> srv_event \<Rightarrow> server \<Rightarrow> server" where
  "srv_step c li (Encoder e) s = encoder_step c e s"
| "srv_step c li (SilenceTick w) s =
     (if silenceInterval (silenceGenerator s) then writeSilenceChunk w s else s)"
| "srv_step c li IdleSilenceTimer s =
     (if idleSilenceTimer (silenceGenerator s)
      then s\<lparr>silenceGenerator :=
               idle_silence_cb ((silenceGenerator s)\<lparr>idleSilenceTimer := False\<rparr>)\<rparr>
      else s)"
| "srv_step c li SilenceStart s = s\<lparr>silenceGenerator := start (silenceGenerator s)\<rparr>"
| "srv_step c li (ServerShutdown k) s =
     (let s1 = s\<lparr>silenceGenerator := stop (silenceGenerator s)\<rparr>;
          s2 = tcp_stop s1
      in s2\<lparr>ffmpegManager := shutdown k (ffmpegManager s2)\<rparr>)"
| "srv_step c li (Incoming sk now) s = attachProducer sk now s"
| "srv_step c li (ProducerData sk chunk now w) s =
     (if sk \<in> handlers s \<and> sk \<notin> destroyed s \<and> sk \<notin> paused s \<and> chunk \<noteq> []
      then handleProducerData li sk chunk now w s else s)"
| "srv_step c li (ProducerClose sk now) s =
     (if sk \<in> handlers s
      then producer_close sk now
             (s\<lparr>handlers := handlers s - {sk}, destroyed := insert sk (destroyed s)\<rparr>)
      else s)"
| "srv_step c li (ProducerError sk) s = s"
| "srv_step c li IngestIdleTimer s =
     (if ingestIdleTimer (tcpServer s)
      then s\<lparr>tcpServer := (tcpServer s)\<lparr>ingestIdleTimer := False\<rparr>\<rparr> else s)"
| "srv_step c li (BackgroundChange newBackground k) s = onBackgroundChange newBackground k s"
| "srv_step c li (OverlayStyleChange k) s = onOverlayStyleChange k s"

fun srv_run :: "config \<Rightarrow> int \<Rightarrow> srv_event list \<Rightarrow> server \<Rightarrow> server" where
  "srv_run c li [] s = s"
| "srv_run c li (e # es) s = srv_run c li es (srv_step c li e s)"

section \<open>The unblock route (server/http-routes)\<close>

datatype js_error = TypeError

text \<open>
  The handler of \<open>POST /ffmpeg/unblock\<close> (server/http-routes). \<open>manualUnblock\<close> is what
  reading that property of the manager object gives: a function, here from the state to
  the truthiness of its result and the new state, or \<open>undefined\<close>; calling \<open>undefined\<close>
  throws. \<open>manager_property name f\<close> is the lookup of \<open>name\<close> on the object returned by
  \<open>createFfmpegManager\<close>, \<open>f\<close> being the function stored under a name it has.
\<close>

definition ffmpeg_unblock_route ::
  "(mgr \<Rightarrow> bool \<times> mgr) option \<Rightarrow> mgr \<Rightarrow> js_error + (nat \<times> mgr)" where
  "ffmpeg_unblock_route manualUnblock s =
     (case manualUnblock of
        None \<Rightarrow> Inl TypeError
      | Some f \<Rightarrow> (let (ok, s') = f s in if ok then Inr (204, s') else Inr (409, s')))"

definition manager_property :: "string \<Rightarrow> 'a \<Rightarrow> 'a option" where
  "manager_property name f = (if name \<in> set manager_api then Some f else None)"

section \<open>Decode Controller (player/playlist-manager, player/playback-controller)\<close>

record track =
  title :: string
  artist :: string
  album :: string
  duration :: "nat option"
  filename :: string
  fullPath :: string

text \<open>
  The state object of \<open>createPlaylistManager\<close>. Indices are JavaScript numbers, with -1
  for "none".
\<close>

record playlist_state =
  playlist :: "track list"
  currentIndex :: int
  currentTrack :: "track option"
  history :: "int list"
  shuffledQueue :: "int list"
  shuffle :: bool

text \<open>\<open>state.playlist[index] || null\<close>: reading outside the array gives \<open>undefined\<close>.\<close>

definition getTrackAtIndex :: "int \<Rightarrow> playlist_state \<Rightarrow> track option" where
  "getTrackAtIndex index st =
     (if 0 \<le> index \<and> index < int (length (playlist st))
      then Some (playlist st ! nat index) else None)"

definition setCurrentIndex :: "int \<Rightarrow> playlist_state \<Rightarrow> playlist_state" where
  "setCurrentIndex index st =
     st\<lparr>currentIndex := index, currentTrack := getTrackAtIndex index st\<rparr>"

definition addToHistory :: "playlist_state \<Rightarrow> playlist_state" where
  "addToHistory st =
     (if currentIndex st \<noteq> -1 then st\<lparr>history := history st @ [currentIndex st]\<rparr> else st)"

text \<open>
  \<open>shuffleArray\<close> (Fisher-Yates). \<open>rnd i\<close> stands for the draw of \<open>Math.random\<close> made for
  position \<open>i\<close>: \<open>floor(random * (i + 1))\<close> is some index from 0 to \<open>i\<close>.
\<close>

fun shuffle_loop :: "(nat \<Rightarrow> nat) \<Rightarrow> nat \<Rightarrow> 'a list \<Rightarrow> 'a list" where
  "shuffle_loop rnd 0 arr = arr"
| "shuffle_loop rnd (Suc i) arr =
     (let j = rnd (Suc i) mod (Suc i + 1)
      in shuffle_loop rnd i (arr[Suc i := arr ! j, j := arr ! Suc i]))"

definition shuffleArray :: "(nat \<Rightarrow> nat) \<Rightarrow> 'a list \<Rightarrow> 'a list" where
  "shuffleArray rnd arr = shuffle_loop rnd (length arr - 1) arr"

definition refreshShuffleQueue :: "(nat \<Rightarrow> nat) \<Rightarrow> int \<Rightarrow> playlist_state \<Rightarrow> playlist_state" where
  "refreshShuffleQueue rnd excludeIndex st =
     (let indices = filter (\<lambda>idx. idx \<noteq> excludeIndex \<or> length (playlist st) = 1)
                           (map int [0 ..< length (playlist st)])
      in st\<lparr>shuffledQueue := shuffleArray rnd indices\<rparr>)"

text \<open>The remainder operator of JavaScript takes the sign of the dividend.\<close>

definition js_rem :: "int \<Rightarrow> int \<Rightarrow> int" where
  "js_rem a n = (if 0 \<le> a then a mod \<bar>n\<bar> else - ((- a) mod \<bar>n\<bar>))"

definition pickNextIndex :: "(nat \<Rightarrow> nat) \<Rightarrow> playlist_state \<Rightarrow> int \<times> playlist_state" where
  "pickNextIndex rnd st =
     (if length (playlist st) = 0 then (-1, st)
      else if \<not> shuffle st then
        (if currentIndex st = -1 then (0, st)
         else (js_rem (currentIndex st + 1) (int (length (playlist st))), st))
      else
        let st1 = (if shuffledQueue st = [] then refreshShuffleQueue rnd (currentIndex st) st
                   else st)
        in case shuffledQueue st1 of
             [] \<Rightarrow> (-1, st1)
           | next # queue \<Rightarrow> (next, st1\<lparr>shuffledQueue := queue\<rparr>))"

text \<open>
  The state object of \<open>createPlaybackController\<close>. The offset is kept in milliseconds;
  \<open>decoderShuttingDown\<close> is the field \<open>shuttingDown\<close> of that object.
\<close>

record playback_state =
  process :: "child option"
  startTime :: "time option"
  offset :: int
  isPaused :: bool
  stopIntent :: "string option"
  decoderShuttingDown :: bool

text \<open>
  The player: both state objects, and the log of decode subprocesses launched (file and
  start offset), which only observes.
\<close>

record player =
  playlistManager :: playlist_state
  playback :: playback_state
  launched :: "(string \<times> int) list"

definition playTrackAtIndex :: "int \<Rightarrow> int option \<Rightarrow> spawn_result \<Rightarrow> time \<Rightarrow> player \<Rightarrow> player" where
  "playTrackAtIndex index opt_offset res now p =
     (case getTrackAtIndex index (playlistManager p) of
        None \<Rightarrow> p
      | Some tr \<Rightarrow>
          let offs = (case opt_offset of None \<Rightarrow> 0 | Some x \<Rightarrow> x);
              p1 = p\<lparr>playlistManager := setCurrentIndex index (playlistManager p),
                     playback := (playback p)\<lparr>offset := offs, isPaused := False\<rparr>\<rparr>;
              failed = p1\<lparr>playlistManager := setCurrentIndex (-1) (playlistManager p1)\<rparr>
          in case res of
               SpawnThrows \<Rightarrow> failed
             | SpawnReturns ffmpeg \<Rightarrow>
                 if \<not> has_pid ffmpeg then failed
                 else p1\<lparr>playback := (playback p1)\<lparr>process := Some ffmpeg,
                                                     startTime := Some now,
                                                     stopIntent := None\<rparr>,
                         launched := launched p1 @ [(fullPath tr, offs)]\<rparr>)"

text \<open>The \<open>close\<close> handler that \<open>playTrackAtIndex\<close> installs on the decode subprocess.\<close>

definition decode_close :: "(nat \<Rightarrow> nat) \<Rightarrow> spawn_result \<Rightarrow> time \<Rightarrow> player \<Rightarrow> player" where
  "decode_close rnd res now p =
     (let p1 = p\<lparr>playback := (playback p)\<lparr>process := None\<rparr>\<rparr>
      in if truthy (stopIntent (playback p1)) then p1
         else if decoderShuttingDown (playback p1) then p1
         else
           let p2 = p1\<lparr>playlistManager := addToHistory (playlistManager p1)\<rparr>;
               (nextIndex, pm) = pickNextIndex rnd (playlistManager p2);
               p3 = p2\<lparr>playlistManager := pm\<rparr>
           in if nextIndex = -1
              then p3\<lparr>playlistManager := setCurrentIndex (-1) (playlistManager p3)\<rparr>
              else playTrackAtIndex nextIndex None res now p3)"

text \<open>
  What the playlist manager maintains between calls: the current index is -1 or points
  into the playlist, and so does every queued index.
\<close>

definition playlist_ok :: "playlist_state \<Rightarrow> bool" where
  "playlist_ok st =
     ((currentIndex st = -1 \<or> (0 \<le> currentIndex st \<and> currentIndex st < int (length (playlist st))))
      \<and> list_all (\<lambda>i. 0 \<le> i \<and> i < int (length (playlist st))) (shuffledQueue st))"

section \<open>Notions used to state the properties of the Encode Supervisor\<close>

text \<open>
  Concrete inputs: a child that started, one that got no pid, and event sequences.
  \<open>crash_loop_events\<close> is five crashes and restarts within twenty seconds;
  \<open>pending_restart_events\<close> ends with an \<open>error\<close> event whose restart is still pending.
  \<open>dormant\<close> says that nothing is left that could call \<open>spawn_\<close>: no child with handlers,
  no heartbeat, no restart or respawn timer. \<open>quiescent d\<close> adds that no child is set and
  that no block timer is due before \<open>d\<close>.
\<close>

definition live_child :: child where
  "live_child = \<lparr>pid = Some 4242, killed = False, hasStdin = True, stdinDestroyed = False\<rparr>"

definition crash_loop_events :: "mgr_event list" where
  "crash_loop_events =
     [ApiSpawn (SpawnReturns live_child) 0,
      ChildClose 1000 0, Fire RestartTimer 1500 (SpawnReturns live_child),
      ChildClose 2000 0, Fire RestartTimer 3000 (SpawnReturns live_child),
      ChildClose 3500 0, Fire RestartTimer 5500 (SpawnReturns live_child),
      ChildClose 6000 0, Fire RestartTimer 10000 (SpawnReturns live_child),
      ChildClose 11000 0, Fire RestartTimer 19000 (SpawnReturns live_child)]"

definition pending_restart_events :: "mgr_event list" where
  "pending_restart_events =
     [ApiSpawn (SpawnReturns live_child) 0,
      ChildClose 1000 0, Fire RestartTimer 1500 (SpawnReturns live_child),
      ChildClose 2000 0, Fire RestartTimer 3000 (SpawnReturns live_child),
      ChildClose 3500 0, Fire RestartTimer 5500 (SpawnReturns live_child),
      ChildClose 6000 0, Fire RestartTimer 10000 (SpawnReturns live_child),
      ChildError 11000 0]"

fun external_spawn :: "mgr_event \<Rightarrow> bool" where
  "external_spawn (ApiSpawn res now) = True"
| "external_spawn e = False"

fun unblocks :: "time \<Rightarrow> mgr_event \<Rightarrow> bool" where
  "unblocks d (Fire BlockTimer now res) = (d \<le> now)"
| "unblocks d e = False"


definition in_window :: "config \<Rightarrow> time \<Rightarrow> mgr \<Rightarrow> time list" where
  "in_window c now s =
     filter (\<lambda>ts. now - ts \<le> FFMPEG_RESTART_WINDOW_MS c) (ffmpegRestartAttempts s)"

definition dormant :: "mgr \<Rightarrow> bool" where
  "dormant s =
     (attached s = 0 \<and> \<not> heartbeatTimer s
      \<and> list_all (\<lambda>(k, due). k = StabilityTimer \<or> k = BlockTimer) (timers s))"

definition quiescent :: "time \<Rightarrow> mgr \<Rightarrow> bool" where
  "quiescent d s =
     (dormant s \<and> ffmpegProcess s = None
      \<and> list_all (\<lambda>(k, due). k = BlockTimer \<longrightarrow> d \<le> due) (timers s))"

definition block_handle_ok :: "mgr \<Rightarrow> bool" where
  "block_handle_ok s =
     list_all (\<lambda>(k, due). k = BlockTimer \<longrightarrow> ffmpegBlockTimeout s = Some due) (timers s)"

definition spawn_failed :: "spawn_result \<Rightarrow> bool" where
  "spawn_failed res = (case res of SpawnThrows \<Rightarrow> True | SpawnReturns ch \<Rightarrow> \<not> has_pid ch)"


definition full_window_state :: mgr where
  "full_window_state =
     mgr_init\<lparr>ffmpegRestartAttempts := [1000, 2000, 3500, 6000, 11000],
              ffmpegStartedAt := Some 19000, ffmpegRestarts := 5,
              timers := [(StabilityTimer, 120000), (StabilityTimer, 121500),
                         (StabilityTimer, 123000), (StabilityTimer, 125500),
                         (StabilityTimer, 130000), (StabilityTimer, 139000)],
              spawnLog := [0, 1500, 3000, 5500, 10000, 19000]\<rparr>"

definition quiet_events :: "mgr_event list" where
  "quiet_events =
     [Fire StabilityTimer 139000 SpawnThrows,
      HeartbeatTick 140000 0,
      ChildClose 150000 0,
      ApiRequestRestart ''overlay style change'' (KillReturns True),
      Fire RestartTimer 200000 (SpawnReturns live_child),
      Fire BlockTimer 319999 (SpawnReturns live_child)]"


definition pidless_child :: child where
  "pidless_child = \<lparr>pid = None, killed = False, hasStdin = True, stdinDestroyed = False\<rparr>"

section \<open>Notions used to state the properties of the server process and the player\<close>

text \<open>
  \<open>filler_writes\<close> are the writes of the Silence Filler in the log, \<open>resumes\<close> counts the
  resumptions of producer sockets, \<open>last_write\<close> is the result of the latest write to the
  encoder input. \<open>encoder_writable\<close> says that the encoder's stdin is there, not destroyed,
  and that the shared writable flag is set; \<open>filler_ready\<close> that the filler's interval runs
  and neither of its flags is set. \<open>clears_backpressure\<close> marks the events whose handlers
  reset the filler's backpressure flag: the drain callback, the resume timer, and stop and
  start of the filler. \<open>chunk_pauses\<close> is the condition under which the handling of a
  chunk pauses the producer. The remaining definitions are concrete inputs.
\<close>

fun is_filler_write :: "effect \<Rightarrow> bool" where
  "is_filler_write (StdinWrite Filler buf w) = True"
| "is_filler_write x = False"

definition filler_writes :: "server \<Rightarrow> effect list" where
  "filler_writes s = filter is_filler_write (effects s)"



fun clears_backpressure :: "srv_event \<Rightarrow> bool" where
  "clears_backpressure (Encoder StdinDrain) = True"
| "clears_backpressure IdleSilenceTimer = True"
| "clears_backpressure SilenceStart = True"
| "clears_backpressure (ServerShutdown k) = True"
| "clears_backpressure e = False"

definition encoder_writable :: "server \<Rightarrow> bool" where
  "encoder_writable s = (getStdin (ffmpegManager s) \<noteq> None \<and> isWritable (ffmpegManager s))"

definition filler_ready :: "server \<Rightarrow> bool" where
  "filler_ready s =
     (silenceInterval (silenceGenerator s) \<and> \<not> silencePaused (silenceGenerator s)
      \<and> \<not> silenceBackpressure (silenceGenerator s))"



definition at_most_one_producer :: "server \<Rightarrow> bool" where
  "at_most_one_producer s =
     (handlers s - destroyed s \<subseteq> set_option (currentProducer (tcpServer s)))"

definition streaming_events :: "srv_event list" where
  "streaming_events = [Encoder (ApiSpawn (SpawnReturns live_child) 0), SilenceStart]"



definition respawn_events :: "srv_event list" where
  "respawn_events =
     [Encoder (Fire RestartTimer 1500 (SpawnReturns live_child)), Encoder ChildSpawned,
      SilenceTick WriteOk, SilenceTick WriteOk]"

definition streaming_server :: server where
  "streaming_server = srv_run default_config 5000 streaming_events (server_init 0)"

definition backpressured_server :: server where
  "backpressured_server = srv_step default_config 5000 (SilenceTick WriteFull) streaming_server"

definition encoder_gone_server :: server where
  "encoder_gone_server = srv_step default_config 5000 (Encoder (ChildClose 1000 0)) streaming_server"

definition starved_server :: server where
  "starved_server = srv_step default_config 5000 (SilenceTick WriteOk) encoder_gone_server"

definition producer_server :: server where
  "producer_server = srv_step default_config 5000 (Incoming 1 10) streaming_server"


definition replaced_server :: server where
  "replaced_server = attachProducer 2 20 producer_server"

definition replaced_paused_server :: server where
  "replaced_paused_server = handleProducerData 5000 2 [1, 2] 25 WriteFull replaced_server"

text \<open>
  The close handler of the decode subprocess up to its choice of the next index: the
  process is forgotten, the current index goes to the history, the next index is picked.
\<close>

definition picked :: "(nat \<Rightarrow> nat) \<Rightarrow> player \<Rightarrow> int \<times> player" where
  "picked rnd p =
     (let p1 = p\<lparr>playback := (playback p)\<lparr>process := None\<rparr>\<rparr>;
          p2 = p1\<lparr>playlistManager := addToHistory (playlistManager p1)\<rparr>;
          (nextIndex, pm) = pickNextIndex rnd (playlistManager p2)
      in (nextIndex, p2\<lparr>playlistManager := pm\<rparr>))"

definition started :: "spawn_result \<Rightarrow> child option" where
  "started res =
     (case res of
        SpawnThrows \<Rightarrow> None
      | SpawnReturns ch \<Rightarrow> if has_pid ch then Some ch else None)"

definition track_a :: track where
  "track_a = \<lparr>title = ''A'', artist = ''X'', album = ''Y'', duration = Some 180,
              filename = ''a.mp3'', fullPath = ''/music/a.mp3''\<rparr>"

definition track_b :: track where
  "track_b = \<lparr>title = ''B'', artist = ''X'', album = ''Y'', duration = None,
              filename = ''b.mp3'', fullPath = ''/music/b.mp3''\<rparr>"

definition playing :: player where
  "playing =
     \<lparr>playlistManager =
        \<lparr>playlist = [track_a, track_b], currentIndex = 0, currentTrack = Some track_a,
         history = [], shuffledQueue = [], shuffle = False\<rparr>,
      playback =
        \<lparr>process = Some live_child, startTime = Some 0, offset = 0, isPaused = False,
         stopIntent = None, decoderShuttingDown = False\<rparr>,
      launched = [(''/music/a.mp3'', 0)]\<rparr>"

definition playing_empty :: player where
  "playing_empty =
     playing\<lparr>playlistManager :=
               (playlistManager playing)\<lparr>playlist := [], currentIndex := -1,
                                         currentTrack := None\<rparr>,
             launched := []\<rparr>"

definition first_draw :: "nat \<Rightarrow> nat" where
  "first_draw i = 0"

section \<open>Properties of the Transport Socket\<close>

lemma backoff_ok_append:
  "backoff_ok prev (xs @ ys) = (backoff_ok prev xs \<and> backoff_ok (last_delay prev xs) ys)"
  by (induction prev xs rule: backoff_ok.induct) auto

lemma sock_step_inv:
  assumes "delay_inv prev st" and "sock_step m e st = (st', out)"
  shows "backoff_ok prev out \<and> delay_inv (last_delay prev out) st'"
proof (cases e)
  case (SockClose sk)
  with assms show ?thesis
    by (cases prev)
       (auto simp: delay_inv_def scheduleReconnect_def Let_def split: if_splits)
next
  case (SockConnect sk)
  with assms show ?thesis by (auto simp: delay_inv_def)
next
  case (TimerFires sk)
  with assms show ?thesis
    by (cases prev)
       (auto simp: delay_inv_def connect_def clearReconnectTimer_def split: if_splits)
next
  case (ApiConnect sk)
  with assms show ?thesis
    by (cases prev)
       (auto simp: delay_inv_def connect_def clearReconnectTimer_def split: if_splits)
next
  case ApiDisconnect
  with assms show ?thesis
    by (cases prev)
       (auto simp: delay_inv_def disconnect_def clearReconnectTimer_def Let_def
             split: if_splits option.splits)
next
  case (ApiSetShuttingDown v)
  with assms show ?thesis
    by (cases prev)
       (auto simp: delay_inv_def setShuttingDown_def clearReconnectTimer_def Let_def
             split: if_splits)
next
  case (ApiSetWritable v)
  with assms show ?thesis by (cases prev) (auto simp: delay_inv_def)
next
  case SockDrain
  with assms show ?thesis by (cases prev) (auto simp: delay_inv_def)
next
  case SockError
  with assms show ?thesis by (cases prev) (auto simp: delay_inv_def)
qed

lemma sock_run_inv:
  "delay_inv prev st \<Longrightarrow> sock_run m es st = (st', out) \<Longrightarrow>
     backoff_ok prev out \<and> delay_inv (last_delay prev out) st'"
proof (induction es arbitrary: prev st st' out)
  case Nil
  then show ?case by simp
next
  case (Cons e es)
  obtain st1 out1 where s1: "sock_step m e st = (st1, out1)"
    by (cases "sock_step m e st")
  obtain st2 out2 where s2: "sock_run m es st1 = (st2, out2)"
    by (cases "sock_run m es st1")
  from Cons.prems(2) s1 s2 have eq: "st' = st2" "out = out1 @ out2"
    by simp_all
  from sock_step_inv [OF Cons.prems(1) s1]
  have a: "backoff_ok prev out1" and b: "delay_inv (last_delay prev out1) st1"
    by simp_all
  from Cons.IH [OF b s2]
  have c: "backoff_ok (last_delay prev out1) out2"
    and d: "delay_inv (last_delay (last_delay prev out1) out2) st2"
    by simp_all
  have e: "last_delay prev (out1 @ out2) = last_delay (last_delay prev out1) out2"
    by (induction prev out1 rule: last_delay.induct) auto
  show ?case
    using a c d e eq by (simp add: backoff_ok_append)
qed

lemma sock_run_snd_Cons:
  "snd (sock_run m (e # es) st)
     = snd (sock_step m e st) @ snd (sock_run m es (fst (sock_step m e st)))"
  by (simp add: split_def Let_def del: sock_step.simps)

lemma sock_run_fst_Cons:
  "fst (sock_run m (e # es) st) = fst (sock_run m es (fst (sock_step m e st)))"
  by (simp add: split_def Let_def del: sock_step.simps)

lemma close_schedules:
  assumes "may_reconnect m st"
  shows "sock_step m (SockClose sk) st
           = (st\<lparr>writable := False,
                 socket := (if socket st = Some sk then None else socket st),
                 reconnectAttempts := reconnectAttempts st + 1,
                 reconnectTimer := Some (min (reconnectDelay st) 30000),
                 reconnectDelay := min (min (reconnectDelay st) 30000 * 2) 30000\<rparr>,
              [Scheduled (min (reconnectDelay st) 30000)])"
  using assms by (simp add: may_reconnect_def scheduleReconnect_def Let_def)

lemma close_gives_up:
  assumes "\<not> shuttingDown st" "reconnectTimer st = None" "m \<le> reconnectAttempts st"
  shows "sock_step m (SockClose sk) st
           = (st\<lparr>writable := False,
                 socket := (if socket st = Some sk then None else socket st)\<rparr>, [GaveUp])"
  using assms by (simp add: scheduleReconnect_def Let_def)

lemma failures_delays:
  "\<not> shuttingDown st \<Longrightarrow> reconnectTimer st = None \<Longrightarrow> reconnectAttempts st = j \<Longrightarrow>
   reconnectDelay st = min (1000 * 2 ^ j) 30000 \<Longrightarrow>
     delays (snd (sock_run m (failures sk n) st))
       = map (\<lambda>k. min (1000 * 2 ^ k) 30000) [j ..< min (j + n) m]"
proof (induction n arbitrary: st j sk)
  case 0
  then show ?case by simp
next
  case (Suc n)
  have run: "snd (sock_run m (failures sk (Suc n)) st)
          = snd (sock_step m (SockClose sk) st)
            @ snd (sock_step m (TimerFires (Suc sk)) (fst (sock_step m (SockClose sk) st)))
            @ snd (sock_run m (failures (Suc sk) n)
                     (fst (sock_step m (TimerFires (Suc sk))
                             (fst (sock_step m (SockClose sk) st)))))"
    by (simp only: failures.simps sock_run_snd_Cons sock_run_fst_Cons)
  show ?case
  proof (cases "j < m")
    case True
    with Suc.prems have mr: "may_reconnect m st" by (simp add: may_reconnect_def)
    let ?d = "min (reconnectDelay st) 30000"
    let ?st1 = "st\<lparr>writable := False,
                   socket := (if socket st = Some sk then None else socket st),
                   reconnectAttempts := reconnectAttempts st + 1,
                   reconnectTimer := Some ?d,
                   reconnectDelay := min (?d * 2) 30000\<rparr>"
    let ?st2 = "?st1\<lparr>reconnectTimer := None\<rparr>"
    have s1: "sock_step m (SockClose sk) st = (?st1, [Scheduled ?d])"
      using close_schedules [OF mr] .
    have s2: "sock_step m (TimerFires (Suc sk)) ?st1 = (?st2, [Dial (Suc sk)])"
      using Suc.prems(1) by (simp add: connect_def clearReconnectTimer_def)
    have d: "?d = min (1000 * 2 ^ j) 30000" using Suc.prems(4) by simp
    have p: "\<not> shuttingDown ?st2" "reconnectTimer ?st2 = None" "reconnectAttempts ?st2 = Suc j"
      "reconnectDelay ?st2 = min (1000 * 2 ^ Suc j) 30000"
      using Suc.prems by simp_all
    from Suc.IH [OF p, of "Suc sk"]
    have ih: "delays (snd (sock_run m (failures (Suc sk) n) ?st2))
                = map (\<lambda>k. min (1000 * 2 ^ k) 30000) [Suc j ..< min (Suc j + n) m]" .
    have "snd (sock_run m (failures sk (Suc n)) st)
            = [Scheduled ?d] @ [Dial (Suc sk)] @ snd (sock_run m (failures (Suc sk) n) ?st2)"
      by (simp only: run s1 s2 fst_conv snd_conv)
    then have "delays (snd (sock_run m (failures sk (Suc n)) st))
            = ?d # delays (snd (sock_run m (failures (Suc sk) n) ?st2))"
      by simp
    also have "\<dots> = ?d # map (\<lambda>k. min (1000 * 2 ^ k) 30000) [Suc j ..< min (Suc j + n) m]"
      by (simp only: ih)
    also have "\<dots> = min (1000 * 2 ^ j) 30000
                     # map (\<lambda>k. min (1000 * 2 ^ k) 30000) [Suc j ..< min (Suc j + n) m]"
      by (simp only: d)
    also have "\<dots> = map (\<lambda>k. min (1000 * 2 ^ k) 30000) [j ..< min (j + Suc n) m]"
      using True by (simp add: upt_rec [of j])
    finally show ?thesis .
  next
    case False
    let ?st1 = "st\<lparr>writable := False,
                   socket := (if socket st = Some sk then None else socket st)\<rparr>"
    from False Suc.prems have "m \<le> reconnectAttempts st" by simp
    from close_gives_up [OF Suc.prems(1,2) this]
    have s1: "sock_step m (SockClose sk) st = (?st1, [GaveUp])" .
    have s2: "sock_step m (TimerFires (Suc sk)) ?st1 = (?st1, [])"
      using Suc.prems(2) by simp
    have p: "\<not> shuttingDown ?st1" "reconnectTimer ?st1 = None" "reconnectAttempts ?st1 = j"
      "reconnectDelay ?st1 = min (1000 * 2 ^ j) 30000"
      using Suc.prems by simp_all
    from Suc.IH [OF p, of "Suc sk"] False
    have ih: "delays (snd (sock_run m (failures (Suc sk) n) ?st1)) = []" by simp
    have "snd (sock_run m (failures sk (Suc n)) st)
            = [GaveUp] @ [] @ snd (sock_run m (failures (Suc sk) n) ?st1)"
      by (simp only: run s1 s2 fst_conv snd_conv)
    then have "delays (snd (sock_run m (failures sk (Suc n)) st)) = []"
      using ih by simp
    with False show ?thesis by simp
  qed
qed

text \<open>
  C4. For every sequence of events of the Transport Socket, starting from the module's
  initial state and for every attempt limit: the reconnect delays scheduled between two
  successful connections start at the floor 1000 ms, each is the previous one doubled and
  cut at the cap 30000 ms (so the delays never decrease), and none exceeds the cap; a
  successful connection puts the delay back to the floor. A connection failure (the close
  of a socket) while the module is not shutting down, no reconnect is pending and the
  attempt limit is not reached does schedule a reconnect, after the current delay cut at
  the cap, and doubles the delay up to the cap. So \<open>n\<close> consecutive failures after a
  successful connection schedule the delays \<open>min (1000 * 2 ^ k) 30000\<close> for \<open>k\<close> from 0
  up to \<open>n - 1\<close>, and no further once the attempt limit is reached.
\<close>

theorem reconnect_backoff:
  "backoff_ok None (snd (sock_run m es audio_socket_init))
   \<and> reconnectDelay (fst (sock_step m (SockConnect sk) st)) = 1000
   \<and> (may_reconnect m st \<longrightarrow>
        snd (sock_step m (SockClose sk) st) = [Scheduled (min (reconnectDelay st) 30000)]
        \<and> reconnectTimer (fst (sock_step m (SockClose sk) st))
            = Some (min (reconnectDelay st) 30000)
        \<and> reconnectDelay (fst (sock_step m (SockClose sk) st))
            = min (2 * min (reconnectDelay st) 30000) 30000)
   \<and> (\<not> shuttingDown st \<and> reconnectTimer st = None \<longrightarrow>
        delays (snd (sock_run m (failures sk n) (fst (sock_step m (SockConnect sk) st))))
          = map (\<lambda>k. min (1000 * 2 ^ k) 30000) [0 ..< min n m])"
proof -
  have i: "delay_inv None audio_socket_init"
    by (simp add: delay_inv_def audio_socket_init_def)
  obtain st' out where r: "sock_run m es audio_socket_init = (st', out)"
    by (cases "sock_run m es audio_socket_init")
  from sock_run_inv [OF i r] have "backoff_ok None out" by simp
  with r have a: "backoff_ok None (snd (sock_run m es audio_socket_init))" by simp
  have b: "reconnectDelay (fst (sock_step m (SockConnect sk) st)) = 1000" by simp
  have c: "snd (sock_step m (SockClose sk) st) = [Scheduled (min (reconnectDelay st) 30000)]
        \<and> reconnectTimer (fst (sock_step m (SockClose sk) st))
            = Some (min (reconnectDelay st) 30000)
        \<and> reconnectDelay (fst (sock_step m (SockClose sk) st))
            = min (2 * min (reconnectDelay st) 30000) 30000" if "may_reconnect m st"
    by (simp only: close_schedules [OF that]) (simp add: mult.commute)
  have d: "delays (snd (sock_run m (failures sk n) (fst (sock_step m (SockConnect sk) st))))
          = map (\<lambda>k. min (1000 * 2 ^ k) 30000) [0 ..< min n m]"
    if h: "\<not> shuttingDown st" "reconnectTimer st = None"
  proof -
    let ?c = "fst (sock_step m (SockConnect sk) st)"
    have "\<not> shuttingDown ?c" "reconnectTimer ?c = None" "reconnectAttempts ?c = 0"
      "reconnectDelay ?c = min (1000 * 2 ^ 0) 30000"
      using h by simp_all
    from failures_delays [OF this, of m sk n] show ?thesis by simp
  qed
  from a b c d show ?thesis by blast
qed

text \<open>The hypotheses of C4 hold for seven consecutive failures after the first connection:
  with the default limit of ten attempts the delays are 1000, 2000, 4000, 8000, 16000,
  30000, 30000; with a limit of three attempts they are 1000, 2000, 4000.\<close>

theorem reconnect_backoff_witness:
  "may_reconnect 10 connected_state
   \<and> snd (sock_step 10 (SockClose 1) connected_state) = [Scheduled 1000]
   \<and> reconnectDelay (fst (sock_step 10 (SockClose 1) connected_state)) = 2000
   \<and> \<not> shuttingDown audio_socket_init \<and> reconnectTimer audio_socket_init = None
   \<and> delays (snd (sock_run 10 (failures 1 7) connected_state))
        = [1000, 2000, 4000, 8000, 16000, 30000, 30000]
   \<and> delays (snd (sock_run 3 (failures 1 7) (fst (sock_step 3 (SockConnect 1) audio_socket_init))))
        = [1000, 2000, 4000]"
proof -
  have h1: "may_reconnect 10 connected_state" "reconnectDelay connected_state = 1000"
    by (simp_all add: may_reconnect_def connected_state_def audio_socket_init_def)
  have h2: "\<not> shuttingDown audio_socket_init" "reconnectTimer audio_socket_init = None"
    by (simp_all add: audio_socket_init_def)
  have e: "map (\<lambda>k. min (1000 * 2 ^ k) (30000::int)) [0 ..< min 7 10]
             = [1000, 2000, 4000, 8000, 16000, 30000, 30000]"
    "map (\<lambda>k. min (1000 * 2 ^ k) (30000::int)) [0 ..< min 7 3] = [1000, 2000, 4000]"
    by code_simp+
  from reconnect_backoff [where m = 10 and st = connected_state and sk = 1] h1
  have a: "snd (sock_step 10 (SockClose 1) connected_state) = [Scheduled 1000]"
    "reconnectDelay (fst (sock_step 10 (SockClose 1) connected_state)) = 2000"
    by simp_all
  from reconnect_backoff [where m = 10 and st = audio_socket_init and sk = 1 and n = 7] h2
  have "delays (snd (sock_run 10 (failures 1 7) connected_state))
          = map (\<lambda>k. min (1000 * 2 ^ k) 30000) [0 ..< min 7 10]"
    by (simp only: connected_state_def) blast
  with e have b: "delays (snd (sock_run 10 (failures 1 7) connected_state))
        = [1000, 2000, 4000, 8000, 16000, 30000, 30000]" by simp
  from reconnect_backoff [where m = 3 and st = audio_socket_init and sk = 1 and n = 7] h2
  have "delays (snd (sock_run 3 (failures 1 7) (fst (sock_step 3 (SockConnect 1) audio_socket_init))))
          = map (\<lambda>k. min (1000 * 2 ^ k) 30000) [0 ..< min 7 3]"
    by blast
  with e have c: "delays (snd (sock_run 3 (failures 1 7) (fst (sock_step 3 (SockConnect 1) audio_socket_init))))
        = [1000, 2000, 4000]" by simp
  from h1 h2 a b c show ?thesis by simp
qed

section \<open>Properties of the Encode Supervisor\<close>

lemmas mgr_eval =
  mgr_init_def default_config_def live_child_def spawn_def has_pid_def close_handler_def
  error_handler_def stopHeartbeat_def truthy_def scheduleRestart_def backoff_delay_def
  clearTimeout_block_def restart_timer_cb_def block_timer_cb_def stability_timer_cb_def
  respawn_timer_cb_def heartbeat_cb_def drain_handler_def requestRestart_def
  setWritable_def setPlannedPause_def clearPlannedPause_def shutdown_def Let_def

lemma take_due_mem:
  "take_due k now ts = Some ts' \<Longrightarrow> \<exists>due. (k, due) \<in> set ts \<and> due \<le> now"
proof (induction ts arbitrary: ts')
  case Nil
  then show ?case by simp
next
  case (Cons a ts)
  obtain k' due' where a: "a = (k', due')" by (cases a)
  show ?case
  proof (cases "k' = k \<and> due' \<le> now")
    case True
    with a show ?thesis by auto
  next
    case False
    with Cons.prems a obtain r where "take_due k now ts = Some r" by auto
    from Cons.IH [OF this] show ?thesis by auto
  qed
qed

lemma take_due_subset:
  "take_due k now ts = Some ts' \<Longrightarrow> set ts' \<subseteq> set ts"
proof (induction ts arbitrary: ts')
  case Nil
  then show ?case by simp
next
  case (Cons a ts)
  obtain k' due' where a: "a = (k', due')" by (cases a)
  show ?case
  proof (cases "k' = k \<and> due' \<le> now")
    case True
    with Cons.prems a show ?thesis by auto
  next
    case False
    with Cons.prems a obtain r where r: "take_due k now ts = Some r" and "ts' = a # r" by auto
    with Cons.IH [OF r] show ?thesis by auto
  qed
qed

lemma dormant_step:
  assumes "dormant s" and "\<not> external_spawn e"
  shows "dormant (mgr_step c e s) \<and> spawnLog (mgr_step c e s) = spawnLog s"
proof (cases e)
  case (Fire k now res)
  show ?thesis
  proof (cases "take_due k now (timers s)")
    case None
    with Fire assms show ?thesis by simp
  next
    case (Some ts)
    from take_due_mem [OF Some] obtain due where
      d: "(k, due) \<in> set (timers s)" by blast
    from take_due_subset [OF Some] have sub: "set ts \<subseteq> set (timers s)" .
    from assms(1) d have k: "k = BlockTimer \<or> k = StabilityTimer"
      by (auto simp: dormant_def list_all_iff)
    from assms(1) sub have q: "dormant (s\<lparr>timers := ts\<rparr>)"
      by (auto simp: dormant_def list_all_iff)
    from k show ?thesis
    proof
      assume "k = BlockTimer"
      with Fire Some q show ?thesis
        by (simp add: block_timer_cb_def dormant_def)
    next
      assume "k = StabilityTimer"
      with Fire Some q show ?thesis
        by (simp add: stability_timer_cb_def dormant_def Let_def)
    qed
  qed
next
  case (ApiRequestRestart reason k)
  with assms show ?thesis
    by (auto simp: dormant_def requestRestart_def Let_def split: option.splits kill_result.splits)
next
  case (ApiShutdown k)
  with assms show ?thesis
    by (auto simp: dormant_def shutdown_def stopHeartbeat_def split: option.splits kill_result.splits)
next
  case StdinDestroyed
  with assms show ?thesis
    by (auto simp: dormant_def split: option.splits)
qed (use assms in \<open>auto simp: dormant_def setWritable_def setPlannedPause_def
      clearPlannedPause_def\<close>)

lemma dormant_run:
  "dormant s \<Longrightarrow> \<forall>e \<in> set es. \<not> external_spawn e \<Longrightarrow>
     dormant (mgr_run c es s) \<and> spawnLog (mgr_run c es s) = spawnLog s"
proof (induction es arbitrary: s)
  case Nil
  then show ?case by simp
next
  case (Cons e es)
  from Cons.prems have ne: "\<not> external_spawn e" and rest: "\<forall>e \<in> set es. \<not> external_spawn e"
    by simp_all
  from dormant_step [OF Cons.prems(1) ne, of c]
  have q: "dormant (mgr_step c e s)" and l: "spawnLog (mgr_step c e s) = spawnLog s"
    by simp_all
  from Cons.IH [OF q rest] l show ?case by simp
qed

lemma quiescent_step:
  assumes "quiescent d s" and "\<not> external_spawn e" and "\<not> unblocks d e"
  shows "quiescent d (mgr_step c e s) \<and> ffmpegBlocked (mgr_step c e s) = ffmpegBlocked s"
proof -
  from assms(1) have dm: "dormant s" and pn: "ffmpegProcess s = None"
    and bt: "list_all (\<lambda>(k, due). k = BlockTimer \<longrightarrow> d \<le> due) (timers s)"
    by (simp_all add: quiescent_def)
  from dormant_step [OF dm assms(2), of c] have dm': "dormant (mgr_step c e s)" by simp
  show ?thesis
  proof (cases e)
    case (Fire k now res)
    show ?thesis
    proof (cases "take_due k now (timers s)")
      case None
      with Fire assms show ?thesis by simp
    next
      case (Some ts)
      from take_due_mem [OF Some] obtain due where
        d: "(k, due) \<in> set (timers s)" and le: "due \<le> now" by blast
      from take_due_subset [OF Some] have sub: "set ts \<subseteq> set (timers s)" .
      from dm d have k: "k = BlockTimer \<or> k = StabilityTimer"
        by (auto simp: dormant_def list_all_iff)
      have nb: "k \<noteq> BlockTimer"
      proof
        assume kb: "k = BlockTimer"
        with bt d have "d \<le> due" by (auto simp: list_all_iff)
        with le have "d \<le> now" by simp
        with kb Fire assms(3) show False by simp
      qed
      with k have ks: "k = StabilityTimer" by simp
      from bt sub have bt': "list_all (\<lambda>(k, due). k = BlockTimer \<longrightarrow> d \<le> due) ts"
        by (auto simp: list_all_iff)
      from ks Fire Some pn have eq: "mgr_step c e s = s\<lparr>timers := ts\<rparr>"
        by (simp add: stability_timer_cb_def)
      with dm' bt' pn show ?thesis by (simp add: quiescent_def)
    qed
  next
    case (ApiRequestRestart reason k)
    with assms(1) dm' show ?thesis
      by (auto simp: quiescent_def requestRestart_def)
  next
    case (ApiShutdown k)
    with assms(1) dm' show ?thesis
      by (auto simp: quiescent_def shutdown_def stopHeartbeat_def)
  next
    case (ApiSpawn res now)
    with assms(2) show ?thesis by simp
  next
    case (HeartbeatTick now rnd)
    with assms(1) show ?thesis by (simp add: quiescent_def dormant_def)
  next
    case (ChildClose now rnd)
    with assms(1) show ?thesis by (simp add: quiescent_def dormant_def)
  next
    case (ChildError now rnd)
    with assms(1) show ?thesis by (simp add: quiescent_def dormant_def)
  next
    case StdinDrain
    with assms(1) show ?thesis by (simp add: quiescent_def dormant_def)
  next
    case StdinDestroyed
    with assms(1) show ?thesis by (simp add: quiescent_def dormant_def)
  next
    case ChildSpawned
    with assms(1) show ?thesis by simp
  next
    case (ApiSetWritable v)
    with assms(1) show ?thesis by (simp add: quiescent_def dormant_def setWritable_def)
  next
    case (ApiSetPlannedPause r)
    with assms(1) show ?thesis by (simp add: quiescent_def dormant_def setPlannedPause_def)
  next
    case ApiClearPlannedPause
    with assms(1) show ?thesis by (simp add: quiescent_def dormant_def clearPlannedPause_def)
  qed
qed

lemma quiescent_run:
  "quiescent d s \<Longrightarrow> \<forall>e \<in> set es. \<not> external_spawn e \<and> \<not> unblocks d e \<Longrightarrow>
     ffmpegBlocked (mgr_run c es s) = ffmpegBlocked s"
proof (induction es arbitrary: s)
  case Nil
  then show ?case by simp
next
  case (Cons e es)
  from Cons.prems have ne: "\<not> external_spawn e" "\<not> unblocks d e"
    and rest: "\<forall>e \<in> set es. \<not> external_spawn e \<and> \<not> unblocks d e"
    by simp_all
  from quiescent_step [OF Cons.prems(1) ne, of c]
  have q: "quiescent d (mgr_step c e s)" and b: "ffmpegBlocked (mgr_step c e s) = ffmpegBlocked s"
    by simp_all
  from Cons.IH [OF q rest] b show ?case by simp
qed

lemma threshold_branch:
  assumes "FFMPEG_AUTO_RESTART c" and "\<not> restartingFfmpeg s"
    and "FFMPEG_RESTART_MAX_ATTEMPTS c \<le> length (in_window c now s)"
  shows "scheduleRestart c now rnd s =
           s\<lparr>ffmpegRestartAttempts := in_window c now s, ffmpegBlocked := True,
             rtmpConnected := False,
             timers := clearTimeout_block s @ [(BlockTimer, now + 300000)],
             ffmpegBlockTimeout := Some (now + 300000)\<rparr>"
  using assms
  by (cases "ffmpegBlockTimeout s")
     (simp_all add: scheduleRestart_def in_window_def Let_def clearTimeout_block_def)

lemma clearTimeout_block_kinds:
  assumes "dormant s" and "block_handle_ok s"
  shows "list_all (\<lambda>(k, due). k = StabilityTimer) (clearTimeout_block s)"
proof (cases "ffmpegBlockTimeout s")
  case None
  with assms show ?thesis
    by (auto simp: clearTimeout_block_def dormant_def block_handle_ok_def list_all_iff)
next
  case (Some h)
  with assms show ?thesis
    by (auto simp: clearTimeout_block_def dormant_def block_handle_ok_def list_all_iff)
qed


lemma full_window_reached:
  "mgr_run default_config (crash_loop_events @ [ChildClose 20000 0]) mgr_init
     = scheduleRestart default_config 20000 0 full_window_state"
  unfolding crash_loop_events_def full_window_state_def by (simp add: mgr_eval)

text \<open>
  C1 (amended). When \<open>scheduleRestart\<close> runs with auto-restart enabled and no restart
  already pending, and the attempt window pruned to \<open>FFMPEG_RESTART_WINDOW_MS\<close> holds at
  least \<open>FFMPEG_RESTART_MAX_ATTEMPTS\<close> timestamps, the supervisor enters the blocked state
  (\<open>isBlocked\<close> is true), enters \<open>spawn_\<close> not at all, leaves no restart pending and arms
  the block timer for 300000 ms later, whose callback clears the blocked state and the
  attempt window. When the call finds the supervisor with no child left (the crashed child
  was the only one and nothing else is scheduled), then whatever events follow, short of a
  call of \<open>spawn\<close> from outside, no spawn attempt occurs, and the supervisor stays blocked
  as long as the block timer has not fired, which it cannot before the 5 minutes are over.
\<close>

theorem crash_loop_block:
  assumes "FFMPEG_AUTO_RESTART c" and "\<not> restartingFfmpeg s"
    and "FFMPEG_RESTART_MAX_ATTEMPTS c \<le> length (in_window c now s)"
  shows "isBlocked (scheduleRestart c now rnd s)
       \<and> spawnLog (scheduleRestart c now rnd s) = spawnLog s
       \<and> \<not> restartingFfmpeg (scheduleRestart c now rnd s)
       \<and> timers (scheduleRestart c now rnd s) = clearTimeout_block s @ [(BlockTimer, now + 300000)]
       \<and> \<not> isBlocked (block_timer_cb (scheduleRestart c now rnd s))
       \<and> ffmpegRestartAttempts (block_timer_cb (scheduleRestart c now rnd s)) = []
       \<and> (dormant s \<and> ffmpegProcess s = None \<and> block_handle_ok s \<longrightarrow>
            (\<forall>es. (\<forall>e \<in> set es. \<not> external_spawn e) \<longrightarrow>
               spawnLog (mgr_run c es (scheduleRestart c now rnd s)) = spawnLog s
               \<and> ((\<forall>e \<in> set es. \<not> unblocks (now + 300000) e) \<longrightarrow>
                    isBlocked (mgr_run c es (scheduleRestart c now rnd s)))))"
proof -
  let ?s' = "scheduleRestart c now rnd s"
  note eq = threshold_branch [OF assms, of rnd]
  have a: "isBlocked ?s'" "spawnLog ?s' = spawnLog s" "\<not> restartingFfmpeg ?s'"
    "timers ?s' = clearTimeout_block s @ [(BlockTimer, now + 300000)]"
    using assms(2) by (simp_all add: eq isBlocked_def)
  have b: "\<not> isBlocked (block_timer_cb ?s')" "ffmpegRestartAttempts (block_timer_cb ?s') = []"
    by (simp_all add: block_timer_cb_def isBlocked_def)
  have c: "spawnLog (mgr_run c es ?s') = spawnLog s
             \<and> ((\<forall>e \<in> set es. \<not> unblocks (now + 300000) e) \<longrightarrow> isBlocked (mgr_run c es ?s'))"
    if dm: "dormant s" and pn: "ffmpegProcess s = None" and bh: "block_handle_ok s"
      and ne: "\<forall>e \<in> set es. \<not> external_spawn e" for es
  proof -
    from clearTimeout_block_kinds [OF dm bh]
    have st: "list_all (\<lambda>(k, due). k = StabilityTimer) (clearTimeout_block s)" .
    from st dm have dm': "dormant ?s'"
      by (auto simp: eq dormant_def list_all_iff)
    from st dm' pn have q: "quiescent (now + 300000) ?s'"
      by (auto simp: eq quiescent_def list_all_iff)
    from dormant_run [OF dm' ne, of c] a(2)
    have l: "spawnLog (mgr_run c es ?s') = spawnLog s" by simp
    have "isBlocked (mgr_run c es ?s')" if nu: "\<forall>e \<in> set es. \<not> unblocks (now + 300000) e"
    proof -
      from ne nu have "\<forall>e \<in> set es. \<not> external_spawn e \<and> \<not> unblocks (now + 300000) e" by simp
      from quiescent_run [OF q this, of c] a(1) show ?thesis by (simp add: isBlocked_def)
    qed
    with l show ?thesis by simp
  qed
  from a b c show ?thesis by blast
qed

text \<open>The hypotheses of C1 hold after the sixth crash of \<open>crash_loop_events\<close>.\<close>

theorem crash_loop_block_witness:
  "FFMPEG_AUTO_RESTART default_config \<and> \<not> restartingFfmpeg full_window_state
   \<and> FFMPEG_RESTART_MAX_ATTEMPTS default_config
        \<le> length (in_window default_config 20000 full_window_state)
   \<and> dormant full_window_state \<and> ffmpegProcess full_window_state = None
   \<and> block_handle_ok full_window_state
   \<and> list_all (\<lambda>e. \<not> external_spawn e) quiet_events
   \<and> list_all (\<lambda>e. \<not> unblocks (20000 + 300000) e) quiet_events
   \<and> isBlocked (scheduleRestart default_config 20000 0 full_window_state)
   \<and> spawnLog (mgr_run default_config quiet_events
                  (scheduleRestart default_config 20000 0 full_window_state))
        = spawnLog full_window_state
   \<and> isBlocked (mgr_run default_config quiet_events
                   (scheduleRestart default_config 20000 0 full_window_state))"
proof -
  have h1: "FFMPEG_AUTO_RESTART default_config" by (simp add: default_config_def)
  have h2: "\<not> restartingFfmpeg full_window_state"
    by (simp add: full_window_state_def mgr_init_def)
  have h3: "FFMPEG_RESTART_MAX_ATTEMPTS default_config
              \<le> length (in_window default_config 20000 full_window_state)"
    by (simp add: in_window_def full_window_state_def mgr_init_def default_config_def)
  have h4: "dormant full_window_state \<and> ffmpegProcess full_window_state = None
              \<and> block_handle_ok full_window_state"
    by (simp add: dormant_def block_handle_ok_def full_window_state_def mgr_init_def)
  have h5: "\<forall>e \<in> set quiet_events. \<not> external_spawn e"
    by (simp add: quiet_events_def)
  have h6: "\<forall>e \<in> set quiet_events. \<not> unblocks (20000 + 300000) e"
    by (simp add: quiet_events_def)
  from crash_loop_block [OF h1 h2 h3, of 0] h4 h5 h6
  show ?thesis using h1 h2 h3 by (simp add: list_all_iff)
qed

text \<open>
  C1 as stated fails: after four restarts, an \<open>error\<close> event schedules the fifth, and the
  \<open>close\<close> event that follows requests a restart while five timestamps are in the
  window. The request returns at the guard \<open>restartingFfmpeg\<close>: the supervisor is not
  blocked, and the pending timer spawns at 19000.
\<close>

theorem crash_loop_counterexample:
  "FFMPEG_RESTART_MAX_ATTEMPTS default_config
      \<le> length (in_window default_config 11001
                  (mgr_run default_config pending_restart_events mgr_init))
   \<and> \<not> isBlocked (scheduleRestart default_config 11001 0
                     (mgr_run default_config pending_restart_events mgr_init))
   \<and> \<not> isBlocked (mgr_run default_config
                     (pending_restart_events @ [ChildClose 11001 0]) mgr_init)
   \<and> spawnLog (mgr_run default_config
                  (pending_restart_events
                     @ [ChildClose 11001 0, Fire RestartTimer 19000 (SpawnReturns live_child)])
                  mgr_init)
        = [0, 1500, 3000, 5500, 10000, 19000]"
  unfolding pending_restart_events_def
  by (simp add: mgr_eval in_window_def isBlocked_def)

text \<open>
  C3 (amended). For every spawn attempt that yields no process handle (\<open>spawn\<close> throws,
  or the child has no pid), the supervisor marks the stream disconnected and blocked and
  returns: no timer is armed, no restart is pending, the attempt window and the restart
  counter are unchanged. When nothing else was scheduled, no later event leads to another
  spawn attempt, short of a call of \<open>spawn\<close> from outside.
\<close>

theorem spawn_failure_blocks:
  assumes "spawn_failed res"
  shows "isBlocked (spawn c res now s) \<and> \<not> rtmpConnected (spawn c res now s)
       \<and> timers (spawn c res now s) = timers s
       \<and> restartingFfmpeg (spawn c res now s) = restartingFfmpeg s
       \<and> ffmpegRestartAttempts (spawn c res now s) = ffmpegRestartAttempts s
       \<and> ffmpegRestarts (spawn c res now s) = ffmpegRestarts s
       \<and> (dormant s \<longrightarrow>
            (\<forall>es. (\<forall>e \<in> set es. \<not> external_spawn e) \<longrightarrow>
               spawnLog (mgr_run c es (spawn c res now s)) = spawnLog s @ [now]))"
proof -
  let ?s' = "spawn c res now s"
  have a: "isBlocked ?s'" "\<not> rtmpConnected ?s'" "timers ?s' = timers s"
    "restartingFfmpeg ?s' = restartingFfmpeg s"
    "ffmpegRestartAttempts ?s' = ffmpegRestartAttempts s"
    "ffmpegRestarts ?s' = ffmpegRestarts s"
    "spawnLog ?s' = spawnLog s @ [now]"
    "attached ?s' = attached s" "heartbeatTimer ?s' = heartbeatTimer s"
    using assms
    by (auto simp: spawn_failed_def spawn_def isBlocked_def Let_def split: spawn_result.splits)
  have b: "spawnLog (mgr_run c es ?s') = spawnLog s @ [now]"
    if dm: "dormant s" and ne: "\<forall>e \<in> set es. \<not> external_spawn e" for es
  proof -
    from dm a have "dormant ?s'" by (simp add: dormant_def)
    from dormant_run [OF this ne, of c] a(7) show ?thesis by simp
  qed
  from a b show ?thesis by blast
qed

text \<open>The hypotheses of C3 hold for the first spawn of the process throwing.\<close>

theorem spawn_failure_blocks_witness:
  "spawn_failed SpawnThrows \<and> dormant mgr_init
   \<and> list_all (\<lambda>e. \<not> external_spawn e) quiet_events
   \<and> isBlocked (spawn default_config SpawnThrows 0 mgr_init)
   \<and> timers (spawn default_config SpawnThrows 0 mgr_init) = timers mgr_init
   \<and> spawnLog (mgr_run default_config quiet_events (spawn default_config SpawnThrows 0 mgr_init))
        = spawnLog mgr_init @ [0]"
proof -
  have h1: "spawn_failed SpawnThrows" by (simp add: spawn_failed_def)
  have h2: "dormant mgr_init" by (simp add: dormant_def mgr_init_def)
  have h3: "\<forall>e \<in> set quiet_events. \<not> external_spawn e" by (simp add: quiet_events_def)
  from spawn_failure_blocks [OF h1, of default_config 0 mgr_init] h2 h3
  show ?thesis using h1 by (simp add: list_all_iff)
qed

text \<open>
  C3 as stated fails: after a failed first spawn (thrown, or without pid) no timer is
  pending and no restart is under way, whereas the crash of a started child arms the
  restart timer.
\<close>

theorem spawn_failure_counterexample:
  "timers (spawn default_config SpawnThrows 0 mgr_init) = []
   \<and> \<not> restartingFfmpeg (spawn default_config SpawnThrows 0 mgr_init)
   \<and> timers (spawn default_config (SpawnReturns pidless_child) 0 mgr_init) = []
   \<and> \<not> restartingFfmpeg (spawn default_config (SpawnReturns pidless_child) 0 mgr_init)
   \<and> restartingFfmpeg
       (mgr_run default_config [ApiSpawn (SpawnReturns live_child) 0, ChildClose 1000 0] mgr_init)
   \<and> timers
       (mgr_run default_config [ApiSpawn (SpawnReturns live_child) 0, ChildClose 1000 0] mgr_init)
       = [(StabilityTimer, 120000), (RestartTimer, 1500)]"
  by (simp add: mgr_eval pidless_child_def)






section \<open>Properties of the server process and the player\<close>

lemma tick_held:
  "silencePaused (silenceGenerator s) \<or> silenceBackpressure (silenceGenerator s) \<Longrightarrow>
     srv_step c li (SilenceTick w) s = s"
  by (auto simp: writeSilenceChunk_def)

lemma ticks_held:
  "silencePaused (silenceGenerator s) \<or> silenceBackpressure (silenceGenerator s) \<Longrightarrow>
     srv_run c li (map SilenceTick ws) s = s"
  by (induction ws) (simp_all add: tick_held del: srv_step.simps)

lemma tick_writes:
  assumes "filler_ready s" and "encoder_writable s"
  shows "effects (srv_step c li (SilenceTick w) s) = effects s @ [StdinWrite Filler SILENCE_CHUNK w]"
    and "w = WriteFull \<Longrightarrow> silenceBackpressure (silenceGenerator (srv_step c li (SilenceTick w) s))"
    and "w = WriteFull \<Longrightarrow> \<not> isWritable (ffmpegManager (srv_step c li (SilenceTick w) s))"
  using assms
  by (cases w; auto simp: filler_ready_def encoder_writable_def writeSilenceChunk_def emit_def
        Let_def setWritable_def isWritable_def)+

lemma chunk_size: "length SILENCE_CHUNK = 3528"
  by (simp add: SILENCE_CHUNK_def SILENCE_CHUNK_SIZE_def BYTES_PER_SECOND_def SAMPLE_RATE_def
        CHANNELS_def BYTES_PER_SAMPLE_def SILENCE_CHUNK_DURATION_MS_def)

lemma tick_starved:
  assumes "filler_ready s" and "\<not> encoder_writable s"
  shows "effects (srv_step c li (SilenceTick w) s) = effects s
       \<and> silenceBackpressure (silenceGenerator (srv_step c li (SilenceTick w) s))"
  using assms
  by (auto simp: filler_ready_def encoder_writable_def writeSilenceChunk_def Let_def
           split: option.splits)


lemmas srv_defs =
  emit_def socket_pause_def socket_resume_def socket_destroy_def socketControl_pause_def
  resumeProducer_def pauseProducer_def onProducerDisconnect_def onSpawn_def onDrain_def
  planned_restart_def onBackgroundChange_def onOverlayStyleChange_def attachProducer_def
  producer_close_def tcp_stop_def encoder_step_def handleProducerData_def onData_def
  writeSilenceChunk_def

lemmas silence_defs =
  ensureSilenceWriter_def start_def stop_def suspendTemporarily_def resumeAfterDelay_def
  idle_silence_cb_def setBackpressure_def resetBackpressure_def isActive_def

lemma resumeProducer_silence [simp]:
  "silenceGenerator (resumeProducer s) = silenceGenerator s"
  "filter is_filler_write (effects (resumeProducer s)) = filter is_filler_write (effects s)"
  by (auto simp: resumeProducer_def socket_resume_def emit_def filler_writes_def Let_def
           split: option.splits)

lemma pauseProducer_silence [simp]:
  "silenceGenerator (pauseProducer s) = silenceGenerator s"
  "filter is_filler_write (effects (pauseProducer s)) = filter is_filler_write (effects s)"
  "ffmpegManager (pauseProducer s) = ffmpegManager s"
  by (auto simp: pauseProducer_def socket_pause_def emit_def filler_writes_def Let_def
           split: option.splits)

lemma encoder_step_held:
  assumes "silenceBackpressure (silenceGenerator s)" and "e \<noteq> StdinDrain"
  shows "silenceBackpressure (silenceGenerator (encoder_step c e s))
       \<and> filler_writes (encoder_step c e s) = filler_writes s"
proof (cases e)
  case ChildSpawned
  with assms show ?thesis
    by (simp add: encoder_step_def onSpawn_def Let_def filler_writes_def)
next
  case StdinDrain
  with assms show ?thesis by simp
qed (use assms in \<open>simp_all add: encoder_step_def Let_def filler_writes_def\<close>)

lemma onData_held:
  assumes "silenceBackpressure (silenceGenerator s)"
  shows "silenceBackpressure (silenceGenerator (fst (onData chunk sk w s)))
       \<and> filler_writes (fst (onData chunk sk w s)) = filler_writes s"
  using assms
  by (cases w)
     (auto simp: onData_def Let_def filler_writes_def emit_def socketControl_pause_def
        socket_pause_def silence_defs split: option.splits)

lemma held_step:
  assumes "silenceBackpressure (silenceGenerator s)" and "\<not> clears_backpressure e"
  shows "silenceBackpressure (silenceGenerator (srv_step c li e s))
       \<and> filler_writes (srv_step c li e s) = filler_writes s"
proof (cases e)
  case (Encoder me)
  with assms(2) have "me \<noteq> StdinDrain" by auto
  from encoder_step_held [OF assms(1) this] Encoder show ?thesis by simp
next
  case (SilenceTick w)
  with assms(1) show ?thesis by (simp add: tick_held del: srv_step.simps)
next
  case (Incoming sk now)
  with assms(1) show ?thesis
    by (auto simp: attachProducer_def socket_destroy_def emit_def filler_writes_def Let_def
             split: option.splits)
next
  case (ProducerData sk chunk now w)
  let ?s1 = "s\<lparr>tcpServer := noteIngestChunk li (length chunk) now (tcpServer s)\<rparr>"
  have b: "silenceBackpressure (silenceGenerator ?s1)" using assms(1) by simp
  have f: "filler_writes ?s1 = filler_writes s" by (simp add: filler_writes_def)
  obtain s2 r where od: "onData chunk sk w ?s1 = (s2, r)" by (cases "onData chunk sk w ?s1")
  from onData_held [OF b, of chunk sk w] od f
  have "silenceBackpressure (silenceGenerator s2)" "filler_writes s2 = filler_writes s"
    by simp_all
  with ProducerData od assms(1) show ?thesis
    by (simp add: handleProducerData_def Let_def filler_writes_def)
next
  case (ProducerClose sk now)
  with assms(1) show ?thesis
    by (simp add: producer_close_def onProducerDisconnect_def resumeAfterDelay_def Let_def
          filler_writes_def)
next
  case (BackgroundChange nb k)
  with assms(1) show ?thesis
    by (simp add: onBackgroundChange_def planned_restart_def setBackpressure_def Let_def
          filler_writes_def)
next
  case (OverlayStyleChange k)
  with assms(1) show ?thesis
    by (simp add: onOverlayStyleChange_def planned_restart_def setBackpressure_def Let_def
          filler_writes_def)
next
  case IngestIdleTimer
  with assms(1) show ?thesis by (simp add: filler_writes_def)
next
  case (ProducerError sk)
  with assms(1) show ?thesis by simp
next
  case IdleSilenceTimer
  with assms(2) show ?thesis by simp
next
  case SilenceStart
  with assms(2) show ?thesis by simp
next
  case (ServerShutdown k)
  with assms(2) show ?thesis by simp
qed

lemma held_run:
  "silenceBackpressure (silenceGenerator s) \<Longrightarrow> list_all (\<lambda>e. \<not> clears_backpressure e) es \<Longrightarrow>
     silenceBackpressure (silenceGenerator (srv_run c li es s))
     \<and> filler_writes (srv_run c li es s) = filler_writes s"
proof (induction es arbitrary: s)
  case Nil
  then show ?case by simp
next
  case (Cons e es)
  from Cons.prems have ne: "\<not> clears_backpressure e"
    and rest: "list_all (\<lambda>e. \<not> clears_backpressure e) es" by simp_all
  from held_step [OF Cons.prems(1) ne, of c li]
  have b: "silenceBackpressure (silenceGenerator (srv_step c li e s))"
    and f: "filler_writes (srv_step c li e s) = filler_writes s" by simp_all
  from Cons.IH [OF b rest] f show ?case by simp
qed


lemmas srv_eval =
  srv_defs silence_defs server_init_def silence_init_def tcp_init_def noteIngestChunk_def
  flushIngestLog_def scheduleIngestIdleWarning_def stopIngestIdleWarning_def
  resetIngestCounters_def getStdin_def isWritable_def isRunning_def

text \<open>
  C6. For every tick of the Silence Filler: while its paused flag or its backpressure flag
  is set, the tick writes nothing and changes nothing. When neither flag is set and the
  encoder is writable (its stdin is there and the shared writable flag is set), the tick
  issues exactly one write, of the silent chunk of the fixed size 3528 bytes. When that
  write signals backpressure, the backpressure flag is set; from then on further ticks
  change nothing, and no event other than those that reset the flag adds a write of the
  filler.
\<close>

theorem silence_tick:
  "(silencePaused (silenceGenerator s) \<or> silenceBackpressure (silenceGenerator s) \<longrightarrow>
      srv_step c li (SilenceTick w) s = s)
   \<and> (filler_ready s \<and> encoder_writable s \<longrightarrow>
        effects (srv_step c li (SilenceTick w) s)
          = effects s @ [StdinWrite Filler SILENCE_CHUNK w]
        \<and> length SILENCE_CHUNK = SILENCE_CHUNK_SIZE \<and> SILENCE_CHUNK_SIZE = 3528)
   \<and> (filler_ready s \<and> encoder_writable s \<and> w = WriteFull \<longrightarrow>
        silenceBackpressure (silenceGenerator (srv_step c li (SilenceTick w) s))
        \<and> (\<forall>ws. srv_run c li (map SilenceTick ws) (srv_step c li (SilenceTick w) s)
                   = srv_step c li (SilenceTick w) s)
        \<and> (\<forall>es. list_all (\<lambda>e. \<not> clears_backpressure e) es \<longrightarrow>
                   filler_writes (srv_run c li es (srv_step c li (SilenceTick w) s))
                     = filler_writes (srv_step c li (SilenceTick w) s)))"
proof -
  let ?t = "srv_step c li (SilenceTick w) s"
  have a: "?t = s"
    if "silencePaused (silenceGenerator s) \<or> silenceBackpressure (silenceGenerator s)"
    using that by (rule tick_held)
  have b: "effects ?t = effects s @ [StdinWrite Filler SILENCE_CHUNK w]"
    if "filler_ready s" "encoder_writable s"
    using that by (rule tick_writes(1))
  have sz: "length SILENCE_CHUNK = SILENCE_CHUNK_SIZE" "SILENCE_CHUNK_SIZE = 3528"
    by (simp_all add: SILENCE_CHUNK_def SILENCE_CHUNK_SIZE_def BYTES_PER_SECOND_def
          SAMPLE_RATE_def CHANNELS_def BYTES_PER_SAMPLE_def SILENCE_CHUNK_DURATION_MS_def)
  have d: "silenceBackpressure (silenceGenerator ?t)
           \<and> (\<forall>ws. srv_run c li (map SilenceTick ws) ?t = ?t)
           \<and> (\<forall>es. list_all (\<lambda>e. \<not> clears_backpressure e) es \<longrightarrow>
                  filler_writes (srv_run c li es ?t) = filler_writes ?t)"
    if h: "filler_ready s" "encoder_writable s" "w = WriteFull"
  proof -
    from tick_writes(2) [OF h] have bp: "silenceBackpressure (silenceGenerator ?t)" .
    then have "srv_run c li (map SilenceTick ws) ?t = ?t" for ws
      by (intro ticks_held) simp
    moreover have "filler_writes (srv_run c li es ?t) = filler_writes ?t"
      if "list_all (\<lambda>e. \<not> clears_backpressure e) es" for es
      using held_run [OF bp that] by simp
    ultimately show ?thesis using bp by blast
  qed
  from a b sz d show ?thesis by blast
qed


lemma streaming_server_eq:
  "streaming_server =
     \<lparr>ffmpegManager =
        mgr_init\<lparr>ffmpegProcess := Some live_child, ffmpegStartedAt := Some 0,
                 heartbeatTimer := True, rtmpConnected := True,
                 timers := [(StabilityTimer, 120000)], attached := 1, spawnLog := [0]\<rparr>,
      silenceGenerator = silence_init\<lparr>silenceInterval := True\<rparr>,
      tcpServer = tcp_init 0, handlers = {}, destroyed = {}, paused = {}, effects = []\<rparr>"
  by (simp add: streaming_server_def streaming_events_def srv_eval mgr_eval)

text \<open>The hypotheses of C6 hold for the server after start-up, before and after a write
  that signals backpressure.\<close>

theorem silence_tick_witness:
  "filler_ready streaming_server \<and> encoder_writable streaming_server
   \<and> effects backpressured_server = [StdinWrite Filler SILENCE_CHUNK WriteFull]
   \<and> silenceBackpressure (silenceGenerator backpressured_server)
   \<and> srv_step default_config 5000 (SilenceTick WriteOk) backpressured_server
        = backpressured_server"
proof -
  have h1: "filler_ready streaming_server \<and> encoder_writable streaming_server"
    by (simp add: streaming_server_eq filler_ready_def encoder_writable_def getStdin_def
          isWritable_def mgr_init_def silence_init_def live_child_def)
  have e0: "effects streaming_server = []" by (simp add: streaming_server_eq)
  from silence_tick [of streaming_server default_config 5000 WriteFull] h1
  have a: "effects backpressured_server = effects streaming_server @ [StdinWrite Filler SILENCE_CHUNK WriteFull]"
    and b: "silenceBackpressure (silenceGenerator backpressured_server)"
    by (simp_all add: backpressured_server_def)
  from silence_tick [of backpressured_server default_config 5000 WriteOk] b
  have c: "srv_step default_config 5000 (SilenceTick WriteOk) backpressured_server
             = backpressured_server" by blast
  from h1 a b c e0 show ?thesis by simp
qed

lemma close_unwritable:
  "0 < attached (ffmpegManager s) \<Longrightarrow>
     \<not> encoder_writable (srv_step c li (Encoder (ChildClose now rnd)) s)"
  by (auto simp: encoder_writable_def encoder_step_def getStdin_def close_handler_def
        scheduleRestart_def stopHeartbeat_def Let_def)

text \<open>
  C10. A tick of the Silence Filler that finds the encoder stdin missing or destroyed, or
  the shared writable flag false, writes nothing and sets the filler's backpressure flag.
  The close of the encoder process leaves the encoder not writable, so the next such tick
  sets the flag. Once the flag is set, it stays set and the filler writes nothing through
  every sequence of events that contains none of the three that clear it (the drain
  callback, the resume timer firing, stop or start of the filler), also when a new encoder
  process is spawned in between.
\<close>

theorem filler_stays_backpressured:
  "(filler_ready s \<and> \<not> encoder_writable s \<longrightarrow>
      effects (srv_step c li (SilenceTick w) s) = effects s
      \<and> silenceBackpressure (silenceGenerator (srv_step c li (SilenceTick w) s)))
   \<and> (0 < attached (ffmpegManager s) \<longrightarrow>
        \<not> encoder_writable (srv_step c li (Encoder (ChildClose now rnd)) s))
   \<and> (silenceBackpressure (silenceGenerator s)
        \<and> list_all (\<lambda>e. \<not> clears_backpressure e) es \<longrightarrow>
          silenceBackpressure (silenceGenerator (srv_run c li es s))
          \<and> filler_writes (srv_run c li es s) = filler_writes s)"
  using tick_starved [of s c li w] close_unwritable [of s c li now rnd] held_run [of s es c li]
  by blast

text \<open>The hypotheses of C10 hold when the encoder dies, one tick follows, and a new encoder
  is spawned and becomes writable: the filler still writes nothing.\<close>

theorem filler_stays_backpressured_witness:
  "0 < attached (ffmpegManager streaming_server)
   \<and> filler_ready encoder_gone_server \<and> \<not> encoder_writable encoder_gone_server
   \<and> effects starved_server = effects encoder_gone_server
   \<and> silenceBackpressure (silenceGenerator starved_server)
   \<and> list_all (\<lambda>e. \<not> clears_backpressure e) respawn_events
   \<and> encoder_writable (srv_run default_config 5000 respawn_events starved_server)
   \<and> filler_writes (srv_run default_config 5000 respawn_events starved_server)
        = filler_writes starved_server"
proof -
  have h0: "0 < attached (ffmpegManager streaming_server)"
    by (simp add: streaming_server_eq mgr_init_def)
  have h1: "filler_ready encoder_gone_server"
    by (simp add: encoder_gone_server_def streaming_server_eq filler_ready_def srv_eval mgr_eval)
  have h2: "list_all (\<lambda>e. \<not> clears_backpressure e) respawn_events"
    by (simp add: respawn_events_def)
  have h3: "encoder_writable (srv_run default_config 5000 respawn_events starved_server)"
    by (simp add: starved_server_def encoder_gone_server_def streaming_server_eq
          respawn_events_def encoder_writable_def srv_eval mgr_eval)
  from filler_stays_backpressured
         [where s = streaming_server and c = default_config and li = 5000
            and now = 1000 and rnd = 0] h0
  have a: "\<not> encoder_writable encoder_gone_server"
    by (simp add: encoder_gone_server_def)
  from filler_stays_backpressured
         [where s = encoder_gone_server and c = default_config and li = 5000 and w = WriteOk]
       h1 a
  have b: "effects starved_server = effects encoder_gone_server"
    "silenceBackpressure (silenceGenerator starved_server)"
    by (simp_all add: starved_server_def)
  from filler_stays_backpressured
         [where s = starved_server and c = default_config and li = 5000
            and es = respawn_events] b(2) h2
  have c: "filler_writes (srv_run default_config 5000 respawn_events starved_server)
             = filler_writes starved_server" by blast
  from h0 h1 h2 h3 a b c show ?thesis by simp
qed











lemma resumeProducer_tracking [simp]:
  "handlers (resumeProducer s) = handlers s"
  "destroyed (resumeProducer s) = destroyed s"
  "currentProducer (tcpServer (resumeProducer s)) = currentProducer (tcpServer s)"
  by (auto simp: resumeProducer_def socket_resume_def emit_def Let_def split: option.splits)

lemma pauseProducer_tracking [simp]:
  "handlers (pauseProducer s) = handlers s"
  "destroyed (pauseProducer s) = destroyed s"
  "currentProducer (tcpServer (pauseProducer s)) = currentProducer (tcpServer s)"
  by (auto simp: pauseProducer_def socket_pause_def emit_def Let_def split: option.splits)

lemma handleProducerData_tracking:
  "handlers (handleProducerData li sk chunk now w s) = handlers s"
  "destroyed (handleProducerData li sk chunk now w s) = destroyed s"
  "currentProducer (tcpServer (handleProducerData li sk chunk now w s))
     = currentProducer (tcpServer s)"
  by (cases w;
      auto simp: handleProducerData_def onData_def Let_def emit_def
        socketControl_pause_def socket_pause_def noteIngestChunk_def
        scheduleIngestIdleWarning_def flushIngestLog_def setWritable_def isWritable_def
        silence_defs split: option.splits)+

lemma at_most_one_step:
  assumes "at_most_one_producer s"
  shows "at_most_one_producer (srv_step c li e s)"
proof (cases e)
  case (Encoder me)
  show ?thesis
  proof (cases me)
    case ChildSpawned
    with Encoder assms show ?thesis
      by (simp add: at_most_one_producer_def encoder_step_def onSpawn_def Let_def)
  next
    case StdinDrain
    with Encoder assms show ?thesis
      by (simp add: at_most_one_producer_def encoder_step_def onDrain_def Let_def)
  qed (use Encoder assms in \<open>simp_all add: at_most_one_producer_def encoder_step_def Let_def\<close>)
next
  case (SilenceTick w)
  with assms show ?thesis
    by (cases w)
       (auto simp: at_most_one_producer_def writeSilenceChunk_def emit_def Let_def
             split: if_splits option.splits)
next
  case (Incoming sk now)
  with assms show ?thesis
    by (auto simp: at_most_one_producer_def attachProducer_def socket_destroy_def emit_def
          Let_def resetIngestCounters_def scheduleIngestIdleWarning_def split: option.splits)
next
  case (ProducerData sk chunk now w)
  with assms show ?thesis
    by (simp add: at_most_one_producer_def handleProducerData_tracking)
next
  case (ProducerClose sk now)
  with assms show ?thesis
    by (auto simp: at_most_one_producer_def producer_close_def onProducerDisconnect_def
          Let_def resetIngestCounters_def stopIngestIdleWarning_def split: if_splits)
next
  case (BackgroundChange nb k)
  with assms show ?thesis
    by (simp add: at_most_one_producer_def onBackgroundChange_def planned_restart_def Let_def)
next
  case (OverlayStyleChange k)
  with assms show ?thesis
    by (simp add: at_most_one_producer_def onOverlayStyleChange_def planned_restart_def Let_def)
next
  case (ServerShutdown k)
  with assms show ?thesis
    by (auto simp: at_most_one_producer_def tcp_stop_def socket_destroy_def emit_def Let_def
          stopIngestIdleWarning_def split: option.splits)
qed (use assms in \<open>auto simp: at_most_one_producer_def\<close>)

lemma at_most_one_run:
  "at_most_one_producer s \<Longrightarrow> at_most_one_producer (srv_run c li es s)"
  by (induction es arbitrary: s) (simp_all add: at_most_one_step del: srv_step.simps)

lemma attach_replaces:
  assumes "currentProducer (tcpServer s) = Some old"
  shows "currentProducer (tcpServer (attachProducer new now s)) = Some new"
    and "old \<in> destroyed (attachProducer new now s)"
    and "effects (attachProducer new now s) = effects s @ [SockDestroy old, ProducerConnected new]"
  using assms
  by (simp_all add: attachProducer_def socket_destroy_def emit_def Let_def
        resetIngestCounters_def scheduleIngestIdleWarning_def)

lemma stale_close:
  assumes "currentProducer (tcpServer s) = Some new" and "new \<noteq> old"
  shows "currentProducer (tcpServer (srv_step c li (ProducerClose old now) s)) = Some new"
    and "pendingSocketResume (tcpServer s) \<noteq> Some old \<Longrightarrow>
           pendingSocketResume (tcpServer (srv_step c li (ProducerClose old now) s))
             = pendingSocketResume (tcpServer s)"
    and "new \<in> destroyed (srv_step c li (ProducerClose old now) s) \<longleftrightarrow> new \<in> destroyed s"
    and "paused (srv_step c li (ProducerClose old now) s) = paused s"
  using assms
  by (auto simp: producer_close_def onProducerDisconnect_def Let_def
        resetIngestCounters_def stopIngestIdleWarning_def)

text \<open>
  C9. In every run of the server process at most one producer socket with handlers is not
  destroyed, and it is the current producer. A connection arriving while a producer is
  set destroys the old socket before the new one is installed and announced. When the
  close event of the old socket fires afterwards, the current producer stays the new
  socket, which is neither destroyed nor resumed by it, and a pending-resume reference
  that is not the old socket, in particular the new producer's, is left as it is.
\<close>

theorem single_producer:
  "at_most_one_producer (srv_run c li es (server_init t0))
   \<and> (currentProducer (tcpServer s) = Some old \<longrightarrow>
        currentProducer (tcpServer (attachProducer new now s)) = Some new
        \<and> old \<in> destroyed (attachProducer new now s)
        \<and> effects (attachProducer new now s)
            = effects s @ [SockDestroy old, ProducerConnected new])
   \<and> (currentProducer (tcpServer s) = Some new \<and> new \<noteq> old \<longrightarrow>
        currentProducer (tcpServer (srv_step c li (ProducerClose old now) s)) = Some new
        \<and> (new \<in> destroyed (srv_step c li (ProducerClose old now) s) \<longleftrightarrow> new \<in> destroyed s)
        \<and> paused (srv_step c li (ProducerClose old now) s) = paused s
        \<and> (pendingSocketResume (tcpServer s) \<noteq> Some old \<longrightarrow>
             pendingSocketResume (tcpServer (srv_step c li (ProducerClose old now) s))
               = pendingSocketResume (tcpServer s)))"
proof -
  have "at_most_one_producer (server_init t0)"
    by (simp add: at_most_one_producer_def server_init_def tcp_init_def)
  then have a: "at_most_one_producer (srv_run c li es (server_init t0))"
    by (rule at_most_one_run)
  from a attach_replaces [of s old new now] stale_close [of s new old c li now]
  show ?thesis by blast
qed

text \<open>The hypotheses of C9 hold when a second producer replaces the first, is paused by
  backpressure, and the first one's close event arrives.\<close>

theorem single_producer_witness:
  "currentProducer (tcpServer producer_server) = Some 1
   \<and> currentProducer (tcpServer replaced_server) = Some 2
   \<and> 1 \<in> destroyed replaced_server
   \<and> effects replaced_server = [ProducerConnected 1, SockDestroy 1, ProducerConnected 2]
   \<and> currentProducer (tcpServer replaced_paused_server) = Some 2
   \<and> pendingSocketResume (tcpServer replaced_paused_server) = Some 2
   \<and> currentProducer
        (tcpServer (srv_step default_config 5000 (ProducerClose 1 30) replaced_paused_server))
        = Some 2
   \<and> pendingSocketResume
        (tcpServer (srv_step default_config 5000 (ProducerClose 1 30) replaced_paused_server))
        = Some 2"
proof -
  have h1: "currentProducer (tcpServer producer_server) = Some 1"
    "effects producer_server = [ProducerConnected 1]"
    by (simp_all add: producer_server_def streaming_server_eq srv_eval)
  have h2: "currentProducer (tcpServer replaced_paused_server) = Some 2"
    "pendingSocketResume (tcpServer replaced_paused_server) = Some 2"
    by (simp_all add: replaced_paused_server_def replaced_server_def producer_server_def
          streaming_server_eq srv_eval mgr_eval)
  from single_producer [where s = producer_server and old = 1 and new = 2 and now = 20] h1
  have a: "currentProducer (tcpServer replaced_server) = Some 2"
    "1 \<in> destroyed replaced_server"
    "effects replaced_server = [ProducerConnected 1, SockDestroy 1, ProducerConnected 2]"
    by (simp_all add: replaced_server_def)
  from single_producer
         [where s = replaced_paused_server and old = 1 and new = 2 and now = 30
            and c = default_config and li = 5000] h2
  have b: "currentProducer
        (tcpServer (srv_step default_config 5000 (ProducerClose 1 30) replaced_paused_server))
        = Some 2"
    "pendingSocketResume
        (tcpServer (srv_step default_config 5000 (ProducerClose 1 30) replaced_paused_server))
        = Some 2"
    by simp_all
  from h1 h2 a b show ?thesis by simp
qed

text \<open>
  C2. The route \<open>POST /ffmpeg/unblock\<close> calls \<open>manualUnblock\<close> on the manager object, which
  has no property of that name: in every state of the supervisor, blocked or not, and
  whatever the operation would do, the call throws and the handler answers neither 204
  nor 409.
\<close>

theorem unblock_route_throws:
  "ffmpeg_unblock_route (manager_property ''manualUnblock'' f) s = Inl TypeError"
  by (simp add: ffmpeg_unblock_route_def manager_property_def manager_api_def)


lemma close_no_next:
  assumes "\<not> truthy (stopIntent (playback p))" and "\<not> decoderShuttingDown (playback p)"
    and "fst (picked rnd p) = -1"
  shows "decode_close rnd res now p
           = (snd (picked rnd p))
               \<lparr>playlistManager := setCurrentIndex (-1) (playlistManager (snd (picked rnd p)))\<rparr>"
  using assms
  by (simp add: decode_close_def picked_def Let_def split: prod.splits)

lemma close_next:
  assumes "\<not> truthy (stopIntent (playback p))" and "\<not> decoderShuttingDown (playback p)"
    and "fst (picked rnd p) \<noteq> -1"
  shows "decode_close rnd res now p
           = playTrackAtIndex (fst (picked rnd p)) None res now (snd (picked rnd p))"
  using assms
  by (simp add: decode_close_def picked_def Let_def split: prod.splits)

lemma picked_fields:
  "launched (snd (picked rnd p)) = launched p"
  "process (playback (snd (picked rnd p))) = None"
  "playlist (playlistManager (snd (picked rnd p))) = playlist (playlistManager p)"
  by (auto simp: picked_def Let_def pickNextIndex_def addToHistory_def refreshShuffleQueue_def
           split: prod.splits list.splits if_splits)


lemma shuffle_loop_perm:
  "i < length arr \<Longrightarrow>
     set (shuffle_loop rnd i arr) = set arr \<and> length (shuffle_loop rnd i arr) = length arr"
proof (induction i arbitrary: arr)
  case 0
  then show ?case by simp
next
  case (Suc i)
  let ?j = "rnd (Suc i) mod (Suc i + 1)"
  let ?arr = "arr[Suc i := arr ! ?j, ?j := arr ! Suc i]"
  have j: "?j < length arr"
  proof -
    define k where "k = rnd (Suc i) mod (Suc i + 1)"
    have "k < Suc i + 1" unfolding k_def by (rule mod_less_divisor) simp
    with Suc.prems have "k < length arr" by arith
    then show ?thesis by (simp only: k_def)
  qed
  from Suc.prems j have s: "set ?arr = set arr" by (simp add: set_swap)
  have l: "length ?arr = length arr" by simp
  from Suc.prems l have "i < length ?arr" by simp
  from Suc.IH [OF this] s l show ?case by (simp add: Let_def)
qed

lemma shuffleArray_perm:
  "set (shuffleArray rnd arr) = set arr \<and> length (shuffleArray rnd arr) = length arr"
proof (cases arr)
  case Nil
  then show ?thesis by (simp add: shuffleArray_def)
next
  case (Cons a as)
  then have "length arr - 1 < length arr" by simp
  from shuffle_loop_perm [OF this] show ?thesis by (simp add: shuffleArray_def)
qed

lemma nonempty_if_mem: "y \<in> set xs \<Longrightarrow> xs \<noteq> []"
  by auto

lemma refresh_queue:
  assumes "playlist st \<noteq> []"
  shows "shuffledQueue (refreshShuffleQueue rnd x st) \<noteq> []"
    and "list_all (\<lambda>i. 0 \<le> i \<and> i < int (length (playlist st)))
           (shuffledQueue (refreshShuffleQueue rnd x st))"
proof -
  define n where "n = length (playlist st)"
  define ind where "ind = filter (\<lambda>idx. idx \<noteq> x \<or> n = 1) (map int [0 ..< n])"
  have q: "shuffledQueue (refreshShuffleQueue rnd x st) = shuffleArray rnd ind"
    by (simp add: refreshShuffleQueue_def Let_def ind_def n_def)
  from assms have n0: "n \<noteq> 0" by (simp add: n_def)
  have ex: "\<exists>y. y \<in> set ind"
  proof (cases "n = 1")
    case True
    then show ?thesis by (intro exI [of _ 0]) (simp add: ind_def)
  next
    case False
    with n0 have two: "2 \<le> n" by arith
    show ?thesis
    proof (cases "x = 0")
      case True
      from two have "(1::int) \<in> int ` {0 ..< n}" by (intro image_eqI [of _ _ 1]) auto
      with True show ?thesis by (intro exI [of _ 1]) (simp add: ind_def)
    next
      case x0: False
      from two have "(0::int) \<in> int ` {0 ..< n}" by (intro image_eqI [of _ _ 0]) auto
      with x0 show ?thesis by (intro exI [of _ 0]) (simp add: ind_def)
    qed
  qed
  then obtain y where "y \<in> set ind" ..
  then have ne: "ind \<noteq> []" by (rule nonempty_if_mem)
  have bound: "\<forall>i \<in> set ind. 0 \<le> i \<and> i < int n" by (auto simp: ind_def)
  from shuffleArray_perm [of rnd ind]
  have s: "set (shuffleArray rnd ind) = set ind"
    and l: "length (shuffleArray rnd ind) = length ind" by simp_all
  from ne l have "shuffleArray rnd ind \<noteq> []" by auto
  with q show "shuffledQueue (refreshShuffleQueue rnd x st) \<noteq> []" by simp
  from s bound q show "list_all (\<lambda>i. 0 \<le> i \<and> i < int (length (playlist st)))
           (shuffledQueue (refreshShuffleQueue rnd x st))"
    by (simp add: list_all_iff n_def)
qed

lemma pick_empty: "playlist st = [] \<Longrightarrow> fst (pickNextIndex rnd st) = -1"
  by (simp add: pickNextIndex_def)

lemma pick_valid:
  assumes "playlist_ok st" and "playlist st \<noteq> []"
  shows "0 \<le> fst (pickNextIndex rnd st) \<and> fst (pickNextIndex rnd st) < int (length (playlist st))"
proof (cases "shuffle st")
  case False
  show ?thesis
  proof (cases "currentIndex st = -1")
    case True
    with False assms show ?thesis by (simp add: pickNextIndex_def)
  next
    case ci: False
    with assms(1) have r: "0 \<le> currentIndex st" "currentIndex st < int (length (playlist st))"
      by (simp_all add: playlist_ok_def)
    then have pos: "0 < int (length (playlist st))" by linarith
    with r have "0 \<le> js_rem (currentIndex st + 1) (int (length (playlist st)))
               \<and> js_rem (currentIndex st + 1) (int (length (playlist st))) < int (length (playlist st))"
      by (simp add: js_rem_def)
    with False ci assms(2) show ?thesis by (simp add: pickNextIndex_def)
  qed
next
  case True
  let ?st1 = "if shuffledQueue st = [] then refreshShuffleQueue rnd (currentIndex st) st else st"
  have pl: "playlist ?st1 = playlist st" by (simp add: refreshShuffleQueue_def Let_def)
  have ne: "shuffledQueue ?st1 \<noteq> []"
    using refresh_queue(1) [OF assms(2)] by simp
  have ok: "list_all (\<lambda>i. 0 \<le> i \<and> i < int (length (playlist st))) (shuffledQueue ?st1)"
    using refresh_queue(2) [OF assms(2)] assms(1) by (simp add: playlist_ok_def)
  from ne obtain n q where nq: "shuffledQueue ?st1 = n # q" by (cases "shuffledQueue ?st1") auto
  with ok have "0 \<le> n \<and> n < int (length (playlist st))" by simp
  moreover from True assms(2) nq have "fst (pickNextIndex rnd st) = n"
    by (simp add: pickNextIndex_def Let_def)
  ultimately show ?thesis by simp
qed

lemma addToHistory_ok:
  "playlist_ok (addToHistory st) = playlist_ok st" "playlist (addToHistory st) = playlist st"
  by (simp_all add: addToHistory_def playlist_ok_def)

lemma picked_fst:
  "fst (picked rnd p) = fst (pickNextIndex rnd (addToHistory (playlistManager p)))"
  by (simp add: picked_def Let_def split: prod.splits)

lemma getTrackAtIndex_playlist:
  "playlist st = playlist st' \<Longrightarrow> getTrackAtIndex n st = getTrackAtIndex n st'"
  by (simp add: getTrackAtIndex_def)

lemma play_started:
  assumes "getTrackAtIndex n (playlistManager q) = Some tr" and "started res = Some ch"
  shows "currentIndex (playlistManager (playTrackAtIndex n None res now q)) = n"
    and "currentTrack (playlistManager (playTrackAtIndex n None res now q)) = Some tr"
    and "process (playback (playTrackAtIndex n None res now q)) = Some ch"
    and "startTime (playback (playTrackAtIndex n None res now q)) = Some now"
    and "offset (playback (playTrackAtIndex n None res now q)) = 0"
    and "\<not> isPaused (playback (playTrackAtIndex n None res now q))"
    and "launched (playTrackAtIndex n None res now q) = launched q @ [(fullPath tr, 0)]"
  using assms
  by (auto simp: playTrackAtIndex_def started_def setCurrentIndex_def Let_def
           split: spawn_result.splits if_splits)

lemma play_failed:
  assumes "getTrackAtIndex n (playlistManager q) = Some tr" and "started res = None"
  shows "currentIndex (playlistManager (playTrackAtIndex n None res now q)) = -1"
    and "currentTrack (playlistManager (playTrackAtIndex n None res now q)) = None"
    and "process (playback (playTrackAtIndex n None res now q)) = process (playback q)"
    and "launched (playTrackAtIndex n None res now q) = launched q"
  using assms
  by (auto simp: playTrackAtIndex_def started_def setCurrentIndex_def getTrackAtIndex_def
        Let_def split: spawn_result.splits if_splits)

text \<open>
  C8 (amended). For every close event of the decode subprocess with no stop-intent set and
  the controller not shutting down: the handler records the current index in the history
  and picks the next index. When none is picked (-1), playback halts: the current index
  is reset to -1, no track is current and no process is launched. Otherwise the handler
  plays the picked index. When a track is at it and the decode subprocess starts, that
  track becomes the current one, from offset 0. When a track is at it and the spawn of
  the decode subprocess fails (it throws, or the child has no pid), playback halts as
  well: the current index is reset to -1, no track is current, nothing is launched. For
  a playlist state as the manager keeps it, no index is picked exactly when the playlist
  is empty, and a picked index always has a track.
\<close>

theorem natural_completion:
  assumes "\<not> truthy (stopIntent (playback p))" and "\<not> decoderShuttingDown (playback p)"
  shows
   "(fst (picked rnd p) = -1 \<longrightarrow>
        currentIndex (playlistManager (decode_close rnd res now p)) = -1
      \<and> currentTrack (playlistManager (decode_close rnd res now p)) = None
      \<and> process (playback (decode_close rnd res now p)) = None
      \<and> launched (decode_close rnd res now p) = launched p)
    \<and> (fst (picked rnd p) \<noteq> -1 \<longrightarrow>
        decode_close rnd res now p
          = playTrackAtIndex (fst (picked rnd p)) None res now (snd (picked rnd p)))
    \<and> (fst (picked rnd p) \<noteq> -1
        \<and> getTrackAtIndex (fst (picked rnd p)) (playlistManager p) = Some tr
        \<and> started res = Some ch \<longrightarrow>
          currentIndex (playlistManager (decode_close rnd res now p)) = fst (picked rnd p)
        \<and> currentTrack (playlistManager (decode_close rnd res now p)) = Some tr
        \<and> process (playback (decode_close rnd res now p)) = Some ch
        \<and> startTime (playback (decode_close rnd res now p)) = Some now
        \<and> offset (playback (decode_close rnd res now p)) = 0
        \<and> \<not> isPaused (playback (decode_close rnd res now p))
        \<and> launched (decode_close rnd res now p) = launched p @ [(fullPath tr, 0)])
    \<and> (fst (picked rnd p) \<noteq> -1
        \<and> getTrackAtIndex (fst (picked rnd p)) (playlistManager p) = Some tr
        \<and> started res = None \<longrightarrow>
          currentIndex (playlistManager (decode_close rnd res now p)) = -1
        \<and> currentTrack (playlistManager (decode_close rnd res now p)) = None
        \<and> process (playback (decode_close rnd res now p)) = None
        \<and> launched (decode_close rnd res now p) = launched p)
    \<and> (playlist_ok (playlistManager p) \<longrightarrow>
          (fst (picked rnd p) = -1 \<longleftrightarrow> playlist (playlistManager p) = [])
        \<and> (fst (picked rnd p) \<noteq> -1 \<longrightarrow>
              getTrackAtIndex (fst (picked rnd p)) (playlistManager p) \<noteq> None))"
proof -
  let ?n = "fst (picked rnd p)" and ?q = "snd (picked rnd p)"
  let ?r = "decode_close rnd res now p"
  have a: "currentIndex (playlistManager ?r) = -1 \<and> currentTrack (playlistManager ?r) = None
           \<and> process (playback ?r) = None \<and> launched ?r = launched p" if "?n = -1"
    using close_no_next [OF assms that, of res now] picked_fields [of rnd p]
    by (simp add: setCurrentIndex_def getTrackAtIndex_def)
  have b: "?r = playTrackAtIndex ?n None res now ?q" if "?n \<noteq> -1"
    using close_next [OF assms that] .
  have c: "currentIndex (playlistManager ?r) = ?n
        \<and> currentTrack (playlistManager ?r) = Some tr
        \<and> process (playback ?r) = Some ch
        \<and> startTime (playback ?r) = Some now
        \<and> offset (playback ?r) = 0
        \<and> \<not> isPaused (playback ?r)
        \<and> launched ?r = launched p @ [(fullPath tr, 0)]"
    if h: "?n \<noteq> -1" "getTrackAtIndex ?n (playlistManager p) = Some tr" "started res = Some ch"
  proof -
    from h(2) getTrackAtIndex_playlist [OF picked_fields(3) [of rnd p], of ?n]
    have "getTrackAtIndex ?n (playlistManager ?q) = Some tr" by simp
    from play_started [OF this h(3), of now] b [OF h(1)] picked_fields(1) [of rnd p]
    show ?thesis by simp
  qed
  have f: "currentIndex (playlistManager ?r) = -1
        \<and> currentTrack (playlistManager ?r) = None
        \<and> process (playback ?r) = None
        \<and> launched ?r = launched p"
    if h: "?n \<noteq> -1" "getTrackAtIndex ?n (playlistManager p) = Some tr" "started res = None"
  proof -
    from h(2) getTrackAtIndex_playlist [OF picked_fields(3) [of rnd p], of ?n]
    have "getTrackAtIndex ?n (playlistManager ?q) = Some tr" by simp
    from play_failed [OF this h(3), of now] b [OF h(1)] picked_fields(1,2) [of rnd p]
    show ?thesis by simp
  qed
  have d: "(?n = -1 \<longleftrightarrow> playlist (playlistManager p) = [])
           \<and> (?n \<noteq> -1 \<longrightarrow> getTrackAtIndex ?n (playlistManager p) \<noteq> None)"
    if ok: "playlist_ok (playlistManager p)"
  proof (cases "playlist (playlistManager p) = []")
    case True
    with pick_empty [of "addToHistory (playlistManager p)" rnd] show ?thesis
      by (simp add: picked_fst addToHistory_ok)
  next
    case False
    from ok have "playlist_ok (addToHistory (playlistManager p))" by (simp add: addToHistory_ok)
    moreover from False have "playlist (addToHistory (playlistManager p)) \<noteq> []"
      by (simp add: addToHistory_ok)
    ultimately have "0 \<le> ?n \<and> ?n < int (length (playlist (playlistManager p)))"
      using pick_valid [of "addToHistory (playlistManager p)" rnd]
      by (simp add: picked_fst addToHistory_ok)
    with False show ?thesis by (simp add: getTrackAtIndex_def)
  qed
  from a b c d f show ?thesis by blast
qed

lemmas player_eval =
  playing_def playing_empty_def track_a_def track_b_def picked_def decode_close_def
  playTrackAtIndex_def pickNextIndex_def addToHistory_def setCurrentIndex_def
  getTrackAtIndex_def js_rem_def truthy_def has_pid_def live_child_def started_def
  playlist_ok_def Let_def

text \<open>The hypotheses of C8 hold for a two-track playlist playing its first track, with the
  next decode subprocess starting or getting no pid, and for an empty playlist.\<close>

theorem natural_completion_witness:
  "\<not> truthy (stopIntent (playback playing)) \<and> \<not> decoderShuttingDown (playback playing)
   \<and> playlist_ok (playlistManager playing)
   \<and> fst (picked first_draw playing) = 1
   \<and> getTrackAtIndex 1 (playlistManager playing) = Some track_b
   \<and> started (SpawnReturns live_child) = Some live_child
   \<and> currentIndex (playlistManager
        (decode_close first_draw (SpawnReturns live_child) 5000 playing)) = 1
   \<and> currentTrack (playlistManager
        (decode_close first_draw (SpawnReturns live_child) 5000 playing)) = Some track_b
   \<and> launched (decode_close first_draw (SpawnReturns live_child) 5000 playing)
        = launched playing @ [(fullPath track_b, 0)]
   \<and> started (SpawnReturns pidless_child) = None
   \<and> currentIndex (playlistManager
        (decode_close first_draw (SpawnReturns pidless_child) 5000 playing)) = -1
   \<and> launched (decode_close first_draw (SpawnReturns pidless_child) 5000 playing)
        = launched playing
   \<and> \<not> truthy (stopIntent (playback playing_empty))
   \<and> \<not> decoderShuttingDown (playback playing_empty)
   \<and> fst (picked first_draw playing_empty) = -1
   \<and> currentIndex (playlistManager (decode_close first_draw SpawnThrows 5000 playing_empty)) = -1
   \<and> process (playback (decode_close first_draw SpawnThrows 5000 playing_empty)) = None"
proof -
  have h1: "\<not> truthy (stopIntent (playback playing))" "\<not> decoderShuttingDown (playback playing)"
    by (simp_all add: player_eval)
  have h2: "playlist_ok (playlistManager playing)" "fst (picked first_draw playing) = 1"
    "getTrackAtIndex 1 (playlistManager playing) = Some track_b"
    "started (SpawnReturns live_child) = Some live_child"
    by (simp_all add: player_eval)
  have h3: "\<not> truthy (stopIntent (playback playing_empty))"
    "\<not> decoderShuttingDown (playback playing_empty)"
    "fst (picked first_draw playing_empty) = -1"
    by (simp_all add: player_eval)
  note nc = natural_completion
         [OF h1, where rnd = first_draw and res = "SpawnReturns live_child" and now = 5000
            and tr = track_b and ch = live_child]
  have ne: "fst (picked first_draw playing) \<noteq> -1" using h2(2) by simp
  have g: "getTrackAtIndex (fst (picked first_draw playing)) (playlistManager playing)
             = Some track_b" using h2(2,3) by simp
  from nc ne g h2(4)
  have "currentIndex (playlistManager
          (decode_close first_draw (SpawnReturns live_child) 5000 playing))
          = fst (picked first_draw playing)
        \<and> currentTrack (playlistManager
          (decode_close first_draw (SpawnReturns live_child) 5000 playing)) = Some track_b
        \<and> launched (decode_close first_draw (SpawnReturns live_child) 5000 playing)
          = launched playing @ [(fullPath track_b, 0)]"
    by blast
  with h2(2)
  have a: "currentIndex (playlistManager
        (decode_close first_draw (SpawnReturns live_child) 5000 playing)) = 1"
    "currentTrack (playlistManager
        (decode_close first_draw (SpawnReturns live_child) 5000 playing)) = Some track_b"
    "launched (decode_close first_draw (SpawnReturns live_child) 5000 playing)
        = launched playing @ [(fullPath track_b, 0)]"
    by simp_all
  have h4: "started (SpawnReturns pidless_child) = None"
    by (simp add: started_def has_pid_def pidless_child_def)
  from natural_completion
         [OF h1, where rnd = first_draw and res = "SpawnReturns pidless_child" and now = 5000
            and tr = track_b] ne g h4
  have c: "currentIndex (playlistManager
        (decode_close first_draw (SpawnReturns pidless_child) 5000 playing)) = -1"
    "launched (decode_close first_draw (SpawnReturns pidless_child) 5000 playing)
        = launched playing"
    by blast+
  from natural_completion
         [OF h3(1,2), where rnd = first_draw and res = SpawnThrows and now = 5000] h3(3)
  have b: "currentIndex (playlistManager (decode_close first_draw SpawnThrows 5000 playing_empty)) = -1"
    "process (playback (decode_close first_draw SpawnThrows 5000 playing_empty)) = None"
    by blast+
  from h1 h2 h3 h4 a b c show ?thesis by simp
qed

text \<open>
  C8 as stated fails: on the two-track playlist the next track exists (index 1), but the
  spawn of its decode subprocess throws, and the close handler leaves the index at -1
  with nothing launched, the outcome stated for "none exists".
\<close>

theorem natural_completion_counterexample:
  "\<not> truthy (stopIntent (playback playing)) \<and> \<not> decoderShuttingDown (playback playing)
   \<and> fst (picked first_draw playing) = 1
   \<and> getTrackAtIndex 1 (playlistManager playing) = Some track_b
   \<and> currentIndex (playlistManager (decode_close first_draw SpawnThrows 5000 playing)) = -1
   \<and> currentTrack (playlistManager (decode_close first_draw SpawnThrows 5000 playing)) = None
   \<and> process (playback (decode_close first_draw SpawnThrows 5000 playing)) = None
   \<and> launched (decode_close first_draw SpawnThrows 5000 playing) = launched playing"
  by (simp add: player_eval)


end
